theory Spec2Isabelle
  imports Complex_Main
begin

section \<open>The chat room of \<^verbatim>\<open>src/worker.ts\<close>\<close>

text \<open>
  The class \<^verbatim>\<open>ChatRoom\<close> is embedded method by method. The object's two fields, the
  durable storage it writes, the sockets it sends on and everything it does to the
  outside are one record that every method takes and returns. What the runtime supplies
  is an argument: the result of each \<^verbatim>\<open>crypto.randomUUID()\<close> and \<^verbatim>\<open>Date.now()\<close> call, and the
  function \<^verbatim>\<open>JSON.parse\<close>.
\<close>

subsection \<open>Values\<close>

text \<open>
  What \<^verbatim>\<open>JSON.parse\<close> returns. The members of an object are listed with their keys, each
  key once; a number is its numeric value, which a JSON text cannot make \<^verbatim>\<open>NaN\<close>. A property
  read gives \<open>None\<close> for \<^verbatim>\<open>undefined\<close>.
\<close>

datatype json =
    JNull
  | JBool bool
  | JNumber real
  | JString string
  | JArray "json list"
  | JObject "(string \<times> json) list"

datatype error = SyntaxError | TypeError | StorageError

text \<open>
  \<^verbatim>\<open>parsed.type\<close> and \<^verbatim>\<open>parsed.content\<close>: reading a property of \<^verbatim>\<open>null\<close> throws, an object
  gives its own member, and every other value gives \<^verbatim>\<open>undefined\<close> (no built-in prototype
  has a property of either name, the only two the program reads).
\<close>

fun getProperty :: "json \<Rightarrow> string \<Rightarrow> error + json option" where
  "getProperty JNull k = Inl TypeError"
| "getProperty (JObject members) k = Inr (map_of members k)"
| "getProperty v k = Inr None"

text \<open>The truth value a condition takes of a value (ECMAScript \<^verbatim>\<open>ToBoolean\<close>).\<close>

fun ToBoolean :: "json option \<Rightarrow> bool" where
  "ToBoolean None = False"
| "ToBoolean (Some JNull) = False"
| "ToBoolean (Some (JBool b)) = b"
| "ToBoolean (Some (JNumber r)) = (r \<noteq> 0)"
| "ToBoolean (Some (JString s)) = (s \<noteq> [])"
| "ToBoolean (Some (JArray vs)) = True"
| "ToBoolean (Some (JObject members)) = True"

text \<open>\<^verbatim>\<open>!userId\<close> for a \<^verbatim>\<open>string | null\<close>: true of \<^verbatim>\<open>null\<close> and of the empty string.\<close>

fun falsy :: "string option \<Rightarrow> bool" where
  "falsy None = True"
| "falsy (Some s) = (s = [])"

subsection \<open>Data\<close>

text \<open>
  A socket is named by a number. Each session object holds the server end of its own
  \<^verbatim>\<open>WebSocketPair\<close>, so two session objects are the same object exactly when they are equal
  as records, as long as the sockets of the live sessions differ (\<open>room_ok\<close> below).
  \<^verbatim>\<open>quit?: boolean\<close> is \<open>None\<close> when the property is absent.
\<close>

record WebSocketSession =
  webSocket :: nat
  userId :: string
  username :: string
  quit :: "bool option"

datatype msg_type = Message | Join | Leave | Presence

text \<open>
  The fields of \<^verbatim>\<open>ChatMessage\<close>, prefixed to keep them apart from those of a session.
  \<open>m_content\<close> is whatever \<^verbatim>\<open>parsed.content\<close> was, \<open>None\<close> when the property is absent.
\<close>

record ChatMessage =
  m_id :: string
  m_type :: msg_type
  m_userId :: string
  m_username :: string
  m_content :: "json option"
  m_timestamp :: int

text \<open>The three values the program serialises; a text frame is the value it encodes.\<close>

datatype payload =
    PMessage ChatMessage
  | PHistory "ChatMessage list"
  | PPresence "(string \<times> string) list"

text \<open>What the room does to the outside, in the order it does it.\<close>

datatype effect =
    Stringify payload
  | WsSend nat payload
  | WsClose nat
  | ConsoleError string
  | StoragePut "ChatMessage list"
  | SetAlarm int

text \<open>
  \<open>sessions\<close> is the \<^verbatim>\<open>Set\<close> in insertion order, which is the order \<^verbatim>\<open>forEach\<close> and
  \<^verbatim>\<open>Array.from\<close> visit it in. \<open>stored_messages\<close> and \<open>stored_alarm\<close> are the durable
  storage: the value under the key \<^verbatim>\<open>'messages'\<close> and the one pending alarm. \<open>ws_open\<close>
  tells the sockets whose \<^verbatim>\<open>send\<close> succeeds from those whose \<^verbatim>\<open>send\<close> throws; \<open>next_ws\<close>
  is the next unused socket number.
\<close>

record ChatRoom =
  sessions :: "WebSocketSession list"
  messageHistory :: "ChatMessage list"
  stored_messages :: "ChatMessage list option"
  stored_alarm :: "int option"
  ws_open :: "nat \<Rightarrow> bool"
  next_ws :: nat
  trace :: "effect list"

text \<open>
  \<open>searchParams\<close> are the query parameters of the URL in order; \<^verbatim>\<open>searchParams.get\<close> returns
  the first value given under exactly that name. \<open>headers\<close> is the header list of the
  request in order, names as they were sent and values without surrounding white space.
\<close>

record Request =
  searchParams :: "(string \<times> string) list"
  headers :: "(string \<times> string) list"

record Response =
  status :: nat
  body :: "string option"
  client_webSocket :: "nat option"

subsection \<open>The runtime's operations\<close>

definition Set_add :: "'a \<Rightarrow> 'a list \<Rightarrow> 'a list" where
  "Set_add x xs = (if x \<in> set xs then xs else xs @ [x])"

definition Set_delete :: "'a \<Rightarrow> 'a list \<Rightarrow> 'a list" where
  "Set_delete x xs = filter (\<lambda>y. y \<noteq> x) xs"

text \<open>
  \<^verbatim>\<open>headers.get(name)\<close>: the values of all headers whose name is \<open>name\<close> up to the case of
  ASCII letters, in order and joined by a comma and a space; \<^verbatim>\<open>null\<close> when there is none.
\<close>

definition ascii_lower :: "char \<Rightarrow> char" where
  "ascii_lower c =
     (case map_of (zip ''ABCDEFGHIJKLMNOPQRSTUVWXYZ'' ''abcdefghijklmnopqrstuvwxyz'') c of
        Some l \<Rightarrow> l
      | None \<Rightarrow> c)"

fun join_values :: "string list \<Rightarrow> string option" where
  "join_values [] = None"
| "join_values (v # vs) = Some (foldl (\<lambda>joined w. joined @ '', '' @ w) v vs)"

definition Headers_get :: "string \<Rightarrow> (string \<times> string) list \<Rightarrow> string option" where
  "Headers_get name hs =
     join_values (map snd (filter (\<lambda>h. map ascii_lower (fst h) = map ascii_lower name) hs))"

definition emit :: "effect \<Rightarrow> ChatRoom \<Rightarrow> ChatRoom" where
  "emit e st = st\<lparr>trace := trace st @ [e]\<rparr>"

definition console_error :: "string \<Rightarrow> ChatRoom \<Rightarrow> ChatRoom" where
  "console_error label st = emit (ConsoleError label) st"

definition JSON_stringify :: "payload \<Rightarrow> ChatRoom \<Rightarrow> payload \<times> ChatRoom" where
  "JSON_stringify p st = (p, emit (Stringify p) st)"

text \<open>\<^verbatim>\<open>webSocket.send(text)\<close>: \<open>None\<close> when it throws, which it does on a socket that is not open.\<close>

definition webSocket_send :: "nat \<Rightarrow> payload \<Rightarrow> ChatRoom \<Rightarrow> ChatRoom option" where
  "webSocket_send ws text st =
     (if ws_open st ws then Some (emit (WsSend ws text) st) else None)"

definition webSocket_close :: "nat \<Rightarrow> ChatRoom \<Rightarrow> ChatRoom option" where
  "webSocket_close ws st =
     (if ws_open st ws
      then Some (emit (WsClose ws) (st\<lparr>ws_open := (ws_open st)(ws := False)\<rparr>))
      else None)"

text \<open>
  The two calls on the storage, when they take effect. The write in \<^verbatim>\<open>handleMessage\<close> is not
  awaited, so what becomes of it does not reach the method, and it is taken to take
  effect; the two calls in \<^verbatim>\<open>alarm\<close> are awaited, and whether the storage fulfils or rejects
  each of them is an argument of \<open>alarm\<close>.
\<close>

definition storage_put :: "ChatMessage list \<Rightarrow> ChatRoom \<Rightarrow> ChatRoom" where
  "storage_put msgs st = emit (StoragePut msgs) (st\<lparr>stored_messages := Some msgs\<rparr>)"

definition storage_setAlarm :: "int \<Rightarrow> ChatRoom \<Rightarrow> ChatRoom" where
  "storage_setAlarm t st = emit (SetAlarm t) (st\<lparr>stored_alarm := Some t\<rparr>)"

subsection \<open>The methods\<close>

text \<open>
  The constructor, given what the storage holds: the history is the stored one when there
  is one. The load runs inside \<^verbatim>\<open>blockConcurrencyWhile\<close>, so no event is handled before it
  is done. No socket has been handed out yet.
\<close>

definition new_ChatRoom :: "ChatMessage list option \<Rightarrow> int option \<Rightarrow> ChatRoom" where
  "new_ChatRoom stored alarm_pending =
     \<lparr> sessions = [],
       messageHistory = (case stored of Some msgs \<Rightarrow> msgs | None \<Rightarrow> []),
       stored_messages = stored,
       stored_alarm = alarm_pending,
       ws_open = (\<lambda>ws. False),
       next_ws = 0,
       trace = [] \<rparr>"

definition broadcast_to :: "payload \<Rightarrow> WebSocketSession \<Rightarrow> ChatRoom \<Rightarrow> ChatRoom" where
  "broadcast_to messageStr session st =
     (case webSocket_send (webSocket session) messageStr st of
        Some st' \<Rightarrow> st'
      | None \<Rightarrow> console_error ''Error broadcasting to session:'' st)"

definition broadcast :: "ChatMessage \<Rightarrow> ChatRoom \<Rightarrow> ChatRoom" where
  "broadcast message st =
     (let (messageStr, st1) = JSON_stringify (PMessage message) st
      in fold (broadcast_to messageStr) (sessions st1) st1)"

definition sendMessageHistory :: "WebSocketSession \<Rightarrow> ChatRoom \<Rightarrow> ChatRoom" where
  "sendMessageHistory session st =
     (let (historyMessage, st1) = JSON_stringify (PHistory (messageHistory st)) st
      in case webSocket_send (webSocket session) historyMessage st1 of
           Some st' \<Rightarrow> st'
         | None \<Rightarrow> console_error ''Error sending history:'' st1)"

definition sendPresence :: "WebSocketSession \<Rightarrow> ChatRoom \<Rightarrow> ChatRoom" where
  "sendPresence session st =
     (let users = map (\<lambda>s. (userId s, username s)) (sessions st);
          (presenceMessage, st1) = JSON_stringify (PPresence users) st
      in case webSocket_send (webSocket session) presenceMessage st1 of
           Some st' \<Rightarrow> st'
         | None \<Rightarrow> console_error ''Error sending presence:'' st1)"

text \<open>\<^verbatim>\<open>xs.slice(-100)\<close>: the last hundred elements, all of them when there are fewer.\<close>

definition slice_last :: "nat \<Rightarrow> 'a list \<Rightarrow> 'a list" where
  "slice_last n xs = drop (length xs - n) xs"

definition handleMessage ::
  "(string \<Rightarrow> json option) \<Rightarrow> WebSocketSession \<Rightarrow> string \<Rightarrow> string \<Rightarrow> int \<Rightarrow> ChatRoom \<Rightarrow> ChatRoom"
where
  "handleMessage JSON_parse session data uuid now st =
     (case JSON_parse data of
        None \<Rightarrow> console_error ''Error handling message:'' st
      | Some parsed \<Rightarrow>
          (case getProperty parsed ''type'' of
             Inl e \<Rightarrow> console_error ''Error handling message:'' st
           | Inr ty \<Rightarrow>
               if ty = Some (JString ''message'') then
                 (case getProperty parsed ''content'' of
                    Inl e \<Rightarrow> console_error ''Error handling message:'' st
                  | Inr content \<Rightarrow>
                      if ToBoolean content then
                        (let message = \<lparr> m_id = uuid, m_type = Message,
                                         m_userId = userId session,
                                         m_username = username session,
                                         m_content = content, m_timestamp = now \<rparr>;
                             st1 = st\<lparr>messageHistory := messageHistory st @ [message]\<rparr>;
                             st2 = (if length (messageHistory st1) > 100
                                    then st1\<lparr>messageHistory := slice_last 100 (messageHistory st1)\<rparr>
                                    else st1);
                             st3 = storage_put (messageHistory st2) st2
                         in broadcast message st3)
                      else st)
               else st))"

definition handleClose :: "WebSocketSession \<Rightarrow> string \<Rightarrow> int \<Rightarrow> ChatRoom \<Rightarrow> ChatRoom" where
  "handleClose session uuid now st =
     (let st1 = st\<lparr>sessions := Set_delete session (sessions st)\<rparr>;
          st2 = (if quit session \<noteq> Some True
                 then broadcast \<lparr> m_id = uuid, m_type = Leave,
                                  m_userId = userId session,
                                  m_username = username session,
                                  m_content = None, m_timestamp = now \<rparr> st1
                 else st1)
      in case webSocket_close (webSocket session) st2 of
           Some st' \<Rightarrow> st'
         | None \<Rightarrow> st2)"

text \<open>
  \<^verbatim>\<open>fetch\<close>. The pair's client end takes the next socket number and its server end the one
  after; \<^verbatim>\<open>server.accept()\<close> opens the server end. The three listeners the method adds are
  the events of \<open>dispatch\<close> below.
\<close>

definition fetch :: "Request \<Rightarrow> string \<Rightarrow> int \<Rightarrow> ChatRoom \<Rightarrow> Response \<times> ChatRoom" where
  "fetch request uuid now st =
     (let userId_param = map_of (searchParams request) ''userId'';
          username_param = map_of (searchParams request) ''username''
      in if falsy userId_param \<or> falsy username_param
         then (\<lparr> status = 400, body = Some ''Missing userId or username'',
                  client_webSocket = None \<rparr>, st)
         else if Headers_get ''Upgrade'' (headers request) \<noteq> Some ''websocket''
         then (\<lparr> status = 426, body = Some ''Expected WebSocket upgrade'',
                  client_webSocket = None \<rparr>, st)
         else
           (let userId' = (case userId_param of Some s \<Rightarrow> s | None \<Rightarrow> []);
                username' = (case username_param of Some s \<Rightarrow> s | None \<Rightarrow> []);
                client = next_ws st;
                server = next_ws st + 1;
                st1 = st\<lparr>next_ws := next_ws st + 2,
                         ws_open := (ws_open st)(server := True)\<rparr>;
                session = \<lparr> webSocket = server, userId = userId',
                            username = username', quit = None \<rparr>;
                st2 = st1\<lparr>sessions := Set_add session (sessions st1)\<rparr>;
                st3 = sendMessageHistory session st2;
                st4 = broadcast \<lparr> m_id = uuid, m_type = Join,
                                  m_userId = userId', m_username = username',
                                  m_content = None, m_timestamp = now \<rparr> st3;
                st5 = sendPresence session st4
            in (\<lparr> status = 101, body = None, client_webSocket = Some client \<rparr>, st5)))"

text \<open>
  \<^verbatim>\<open>alarm\<close>. It reads the clock for the filter, awaits the write of the filtered history,
  then reads the clock again and awaits the call that sets the alarm. \<open>now\<close> and \<open>now'\<close> are
  the two readings; \<open>put_fulfilled\<close> and \<open>setAlarm_fulfilled\<close> say whether the storage
  fulfils each call. An awaited call that is rejected throws, nothing catches it, and the
  method ends there with the error, the rest of its body not run.
\<close>

definition alarm ::
  "int \<Rightarrow> bool \<Rightarrow> int \<Rightarrow> bool \<Rightarrow> ChatRoom \<Rightarrow> error option \<times> ChatRoom"
where
  "alarm now put_fulfilled now' setAlarm_fulfilled st =
     (let oneDayAgo = now - 24 * 60 * 60 * 1000;
          st1 = st\<lparr>messageHistory := filter (\<lambda>msg. m_timestamp msg > oneDayAgo) (messageHistory st)\<rparr>
      in if \<not> put_fulfilled then (Some StorageError, st1)
         else
           (let st2 = storage_put (messageHistory st1) st1
            in if \<not> setAlarm_fulfilled then (Some StorageError, st2)
               else (None, storage_setAlarm (now' + 60 * 60 * 1000) st2)))"

subsection \<open>Events\<close>

text \<open>
  What the runtime can deliver to the room: a request, a text frame on a session's socket,
  the \<^verbatim>\<open>close\<close> or the \<^verbatim>\<open>error\<close> event of a session's socket, and the alarm. Each carries
  the values the clock and the identifier generator return while it is handled, and the
  alarm what the storage answers to its two calls.
\<close>

datatype event =
    OnFetch Request string int
  | OnMessage WebSocketSession string string int
  | OnClose WebSocketSession string int
  | OnError WebSocketSession string int
  | OnAlarm int bool int bool

fun dispatch :: "(string \<Rightarrow> json option) \<Rightarrow> event \<Rightarrow> ChatRoom \<Rightarrow> ChatRoom" where
  "dispatch JSON_parse (OnFetch request uuid now) st = snd (fetch request uuid now st)"
| "dispatch JSON_parse (OnMessage session data uuid now) st =
     handleMessage JSON_parse session data uuid now st"
| "dispatch JSON_parse (OnClose session uuid now) st = handleClose session uuid now st"
| "dispatch JSON_parse (OnError session uuid now) st = handleClose session uuid now st"
| "dispatch JSON_parse (OnAlarm now put_fulfilled now' setAlarm_fulfilled) st =
     snd (alarm now put_fulfilled now' setAlarm_fulfilled st)"

definition run :: "(string \<Rightarrow> json option) \<Rightarrow> event list \<Rightarrow> ChatRoom \<Rightarrow> ChatRoom" where
  "run JSON_parse events st = fold (dispatch JSON_parse) events st"

subsection \<open>Describing what a method did\<close>

text \<open>
  One step of the loop in \<^verbatim>\<open>broadcast\<close>: the frame is sent on the session's socket when
  that is open, and the failure is logged when it is not.
\<close>

definition attempt :: "(nat \<Rightarrow> bool) \<Rightarrow> payload \<Rightarrow> WebSocketSession \<Rightarrow> effect" where
  "attempt opn text s =
     (if opn (webSocket s) then WsSend (webSocket s) text
      else ConsoleError ''Error broadcasting to session:'')"

text \<open>The frames a socket was sent, in order.\<close>

fun received :: "nat \<Rightarrow> effect list \<Rightarrow> payload list" where
  "received ws [] = []"
| "received ws (WsSend w text # es) = (if w = ws then text # received ws es else received ws es)"
| "received ws (e # es) = received ws es"

text \<open>The effects of a method that took the room from \<open>st\<close> to \<open>st'\<close>.\<close>

definition new_effects :: "ChatRoom \<Rightarrow> ChatRoom \<Rightarrow> effect list" where
  "new_effects st st' = drop (length (trace st)) (trace st')"

fun is_Stringify :: "effect \<Rightarrow> bool" where
  "is_Stringify (Stringify p) = True"
| "is_Stringify e = False"

fun is_SetAlarm :: "effect \<Rightarrow> bool" where
  "is_SetAlarm (SetAlarm t) = True"
| "is_SetAlarm e = False"

text \<open>The chat messages among the effects: those serialised and those sent.\<close>

fun messages_created :: "effect list \<Rightarrow> ChatMessage list" where
  "messages_created [] = []"
| "messages_created (Stringify (PMessage m) # es) = m # messages_created es"
| "messages_created (WsSend ws (PMessage m) # es) = m # messages_created es"
| "messages_created (e # es) = messages_created es"

text \<open>
  The live sessions hold different sockets, all of them handed out already. \<^verbatim>\<open>fetch\<close> is
  the only place a session is made, so every room the events build is of this kind.
\<close>

definition room_ok :: "ChatRoom \<Rightarrow> bool" where
  "room_ok st \<longleftrightarrow>
     distinct (map webSocket (sessions st)) \<and> (\<forall>s \<in> set (sessions st). webSocket s < next_ws st)"

text \<open>A request that names both identity fields, neither empty, and asks for the upgrade.\<close>

definition valid_request :: "Request \<Rightarrow> string \<Rightarrow> string \<Rightarrow> bool" where
  "valid_request request uid uname \<longleftrightarrow>
     map_of (searchParams request) ''userId'' = Some uid \<and> uid \<noteq> [] \<and>
     map_of (searchParams request) ''username'' = Some uname \<and> uname \<noteq> [] \<and>
     Headers_get ''Upgrade'' (headers request) = Some ''websocket''"

text \<open>The two ways \<^verbatim>\<open>fetch\<close> turns a request away, and the responses it gives.\<close>

definition missing_identity :: "Request \<Rightarrow> bool" where
  "missing_identity request \<longleftrightarrow>
     falsy (map_of (searchParams request) ''userId'') \<or>
     falsy (map_of (searchParams request) ''username'')"

definition no_upgrade :: "Request \<Rightarrow> bool" where
  "no_upgrade request \<longleftrightarrow> Headers_get ''Upgrade'' (headers request) \<noteq> Some ''websocket''"

definition InvalidRequest :: Response where
  "InvalidRequest = \<lparr> status = 400, body = Some ''Missing userId or username'',
                       client_webSocket = None \<rparr>"

definition UnsupportedProtocol :: Response where
  "UnsupportedProtocol = \<lparr> status = 426, body = Some ''Expected WebSocket upgrade'',
                            client_webSocket = None \<rparr>"

definition join_message :: "string \<Rightarrow> string \<Rightarrow> string \<Rightarrow> int \<Rightarrow> ChatMessage" where
  "join_message uid uname uuid now =
     \<lparr> m_id = uuid, m_type = Join, m_userId = uid, m_username = uname,
       m_content = None, m_timestamp = now \<rparr>"

definition leave_message :: "WebSocketSession \<Rightarrow> string \<Rightarrow> int \<Rightarrow> ChatMessage" where
  "leave_message session uuid now =
     \<lparr> m_id = uuid, m_type = Leave, m_userId = userId session,
       m_username = username session, m_content = None, m_timestamp = now \<rparr>"

definition chat_message :: "WebSocketSession \<Rightarrow> json option \<Rightarrow> string \<Rightarrow> int \<Rightarrow> ChatMessage" where
  "chat_message session content uuid now =
     \<lparr> m_id = uuid, m_type = Message, m_userId = userId session,
       m_username = username session, m_content = content, m_timestamp = now \<rparr>"

definition roster :: "WebSocketSession list \<Rightarrow> (string \<times> string) list" where
  "roster ss = map (\<lambda>s. (userId s, username s)) ss"

text \<open>
  The parsed values on which \<^verbatim>\<open>parsed.type === 'message' && parsed.content\<close> holds, and the
  content such a value carries.
\<close>

definition accepted :: "json \<Rightarrow> bool" where
  "accepted parsed =
     (case parsed of
        JObject members \<Rightarrow>
          map_of members ''type'' = Some (JString ''message'') \<and> ToBoolean (map_of members ''content'')
      | _ \<Rightarrow> False)"

definition content_of :: "json \<Rightarrow> json option" where
  "content_of parsed = (case parsed of JObject members \<Rightarrow> map_of members ''content'' | _ \<Rightarrow> None)"

text \<open>
  The shape the room is meant to take in: an object whose type is \<^verbatim>\<open>"message"\<close> and whose
  content is a string that is not empty.
\<close>

definition well_formed :: "json \<Rightarrow> bool" where
  "well_formed parsed =
     (case parsed of
        JObject members \<Rightarrow>
          map_of members ''type'' = Some (JString ''message'') \<and>
          (case map_of members ''content'' of Some (JString c) \<Rightarrow> c \<noteq> [] | _ \<Rightarrow> False)
      | _ \<Rightarrow> False)"

text \<open>A text frame that \<^verbatim>\<open>handleMessage\<close> takes in, and the content it then mints.\<close>

definition data_accepted :: "(string \<Rightarrow> json option) \<Rightarrow> string \<Rightarrow> bool" where
  "data_accepted JSON_parse data =
     (case JSON_parse data of Some parsed \<Rightarrow> accepted parsed | None \<Rightarrow> False)"

definition data_content :: "(string \<Rightarrow> json option) \<Rightarrow> string \<Rightarrow> json option" where
  "data_content JSON_parse data =
     (case JSON_parse data of Some parsed \<Rightarrow> content_of parsed | None \<Rightarrow> None)"

text \<open>
  A frame as it arrives: the session it arrives on, its text, and the identifier and the
  clock reading the room draws while it handles it.
\<close>

type_synonym arrival = "WebSocketSession \<times> string \<times> string \<times> int"

fun arrival_event :: "arrival \<Rightarrow> event" where
  "arrival_event (session, data, uuid, now) = OnMessage session data uuid now"

fun arrival_accepted :: "(string \<Rightarrow> json option) \<Rightarrow> arrival \<Rightarrow> bool" where
  "arrival_accepted JSON_parse (session, data, uuid, now) = data_accepted JSON_parse data"

fun minted :: "(string \<Rightarrow> json option) \<Rightarrow> arrival \<Rightarrow> ChatMessage" where
  "minted JSON_parse (session, data, uuid, now) =
     chat_message session (data_content JSON_parse data) uuid now"

definition content_iff_message :: "ChatMessage \<Rightarrow> bool" where
  "content_iff_message m \<longleftrightarrow> (m_content m \<noteq> None \<longleftrightarrow> m_type m = Message)"

definition only_messages :: "ChatMessage list \<Rightarrow> bool" where
  "only_messages ms \<longleftrightarrow> (\<forall>m \<in> set ms. m_type m = Message)"

definition store_only_messages :: "ChatRoom \<Rightarrow> bool" where
  "store_only_messages st \<longleftrightarrow>
     (case stored_messages st of None \<Rightarrow> True | Some ms \<Rightarrow> only_messages ms)"

text \<open>
  What one event may do to the history, the store and the messages it creates: the room's
  effects are added at the end of the trace, every chat message among the new effects has a
  content exactly when it is of type message, every entry of the history was there before
  or is a message with a content, and the store holds what it held or the new history.
\<close>

definition step_summary :: "ChatRoom \<Rightarrow> ChatRoom \<Rightarrow> bool" where
  "step_summary st st' \<longleftrightarrow>
     trace st' = trace st @ new_effects st st'
     \<and> (\<forall>m \<in> set (messages_created (new_effects st st')). content_iff_message m)
     \<and> (\<forall>m \<in> set (messageHistory st').
           m \<in> set (messageHistory st) \<or> (m_type m = Message \<and> m_content m \<noteq> None))
     \<and> (stored_messages st' = stored_messages st
          \<or> stored_messages st' = Some (messageHistory st'))"

subsection \<open>Sample inputs\<close>

definition websocket_request :: "string \<Rightarrow> string \<Rightarrow> Request" where
  "websocket_request uid uname =
     \<lparr> searchParams = [(''userId'', uid), (''username'', uname)],
       headers = [(''Upgrade'', ''websocket'')] \<rparr>"

text \<open>The same request with the header's name in lower case, as HTTP/2 sends it.\<close>

definition lowercase_request :: "string \<Rightarrow> string \<Rightarrow> Request" where
  "lowercase_request uid uname =
     \<lparr> searchParams = [(''userId'', uid), (''username'', uname)],
       headers = [(''host'', ''chat.example''), (''upgrade'', ''websocket'')] \<rparr>"

text \<open>A request that carries the upgrade header twice.\<close>

definition doubled_upgrade_request :: Request where
  "doubled_upgrade_request =
     \<lparr> searchParams = [(''userId'', ''u2''), (''username'', ''Bob'')],
       headers = [(''Upgrade'', ''websocket''), (''Upgrade'', ''websocket'')] \<rparr>"

definition request_without_userId :: Request where
  "request_without_userId =
     \<lparr> searchParams = [(''userId'', []), (''username'', ''Bob'')],
       headers = [(''Upgrade'', ''websocket'')] \<rparr>"

definition request_without_upgrade :: Request where
  "request_without_upgrade =
     \<lparr> searchParams = [(''userId'', ''u2''), (''username'', ''Bob'')], headers = [] \<rparr>"

definition alice :: WebSocketSession where
  "alice = \<lparr> webSocket = 1, userId = ''u1'', username = ''Alice'', quit = None \<rparr>"

definition bob :: WebSocketSession where
  "bob = \<lparr> webSocket = 3, userId = ''u2'', username = ''Bob'', quit = None \<rparr>"

text \<open>An empty room that Alice has joined.\<close>

definition room_with_alice :: ChatRoom where
  "room_with_alice =
     snd (fetch (websocket_request ''u1'' ''Alice'') ''id-1'' 1000 (new_ChatRoom None None))"

text \<open>Bob has joined as well.\<close>

definition room_with_both :: ChatRoom where
  "room_with_both = snd (fetch (websocket_request ''u2'' ''Bob'') ''id-2'' 2000 room_with_alice)"

text \<open>Then Alice's socket has gone down, and its close event has not been handled yet.\<close>

definition room_alice_dropped :: ChatRoom where
  "room_alice_dropped = room_with_both\<lparr>ws_open := (ws_open room_with_both)(1 := False)\<rparr>"

definition hello :: ChatMessage where
  "hello = chat_message bob (Some (JString ''hi'')) ''id-3'' 3000"

definition stale :: ChatMessage where
  "stale = chat_message alice (Some (JString ''old'')) ''id-0'' 1000"

definition recent :: ChatMessage where
  "recent = chat_message bob (Some (JString ''new'')) ''id-9'' 50000000"

text \<open>A room restored from a store that holds both, with no alarm pending.\<close>

definition restored_room :: ChatRoom where
  "restored_room = new_ChatRoom (Some [stale, recent]) None"

text \<open>Alice has joined the restored room.\<close>

definition restored_with_alice :: ChatRoom where
  "restored_with_alice =
     snd (fetch (websocket_request ''u1'' ''Alice'') ''id-1'' 1000 restored_room)"

definition hi_frame :: string where
  \<open>hi_frame = ''{"type":"message","content":"hi"}''\<close>

definition number_frame :: string where
  \<open>number_frame = ''{"type":"message","content":42}''\<close>

definition as_alice_frame :: string where
  \<open>as_alice_frame = ''{"type":"message","content":"hi","userId":"u1","username":"Alice"}''\<close>

definition as_mallory_frame :: string where
  \<open>as_mallory_frame = ''{"type":"message","content":"hi","userId":"u9","username":"Mallory"}''\<close>

definition empty_frame :: string where
  \<open>empty_frame = ''{"type":"message","content":""}''\<close>

definition ping_frame :: string where
  \<open>ping_frame = ''{"type":"ping"}''\<close>

text \<open>
  What \<^verbatim>\<open>JSON.parse\<close> returns on these texts and on \<^verbatim>\<open>null\<close>; this sample throws on
  every other text.
\<close>

definition parse_sample :: "string \<Rightarrow> json option" where
  "parse_sample data =
     (if data = hi_frame then
        Some (JObject [(''type'', JString ''message''), (''content'', JString ''hi'')])
      else if data = number_frame then
        Some (JObject [(''type'', JString ''message''), (''content'', JNumber 42)])
      else if data = as_alice_frame then
        Some (JObject [(''type'', JString ''message''), (''content'', JString ''hi''),
                       (''userId'', JString ''u1''), (''username'', JString ''Alice'')])
      else if data = as_mallory_frame then
        Some (JObject [(''type'', JString ''message''), (''content'', JString ''hi''),
                       (''userId'', JString ''u9''), (''username'', JString ''Mallory'')])
      else if data = empty_frame then
        Some (JObject [(''type'', JString ''message''), (''content'', JString [])])
      else if data = ping_frame then
        Some (JObject [(''type'', JString ''ping'')])
      else if data = ''null'' then Some JNull
      else None)"

text \<open>A hundred and one arrivals of the same text on Alice's session, each with its own identifier.\<close>

definition many_arrivals :: "nat \<Rightarrow> arrival list" where
  "many_arrivals n = map (\<lambda>i. (alice, hi_frame, replicate (Suc i) (CHR ''x''), int i)) [0..<n]"

text \<open>Alice and Bob join an empty room; then Alice's socket reports an error and then closes.\<close>

definition closed_twice :: ChatRoom where
  "closed_twice =
     run parse_sample
       [OnFetch (websocket_request ''u1'' ''Alice'') ''id-1'' 1000,
        OnFetch (websocket_request ''u2'' ''Bob'') ''id-2'' 2000,
        OnError alice ''id-3'' 3000,
        OnClose alice ''id-4'' 3001]
       (new_ChatRoom None None)"

text \<open>Alice and Bob join an empty room, Bob says hi, and Alice's socket closes.\<close>

definition short_chat :: "event list" where
  "short_chat =
     [OnFetch (websocket_request ''u1'' ''Alice'') ''id-1'' 1000,
      OnFetch (websocket_request ''u2'' ''Bob'') ''id-2'' 2000,
      OnMessage bob hi_frame ''id-3'' 3000,
      OnClose alice ''id-4'' 4000]"

section \<open>What each method does\<close>

lemma broadcast_to_eq:
  "broadcast_to text s st = st\<lparr>trace := trace st @ [attempt (ws_open st) text s]\<rparr>"
  by (simp add: broadcast_to_def webSocket_send_def console_error_def emit_def attempt_def)

lemma fold_broadcast_to:
  "fold (broadcast_to text) ss st = st\<lparr>trace := trace st @ map (attempt (ws_open st) text) ss\<rparr>"
  by (induction ss arbitrary: st) (simp_all add: broadcast_to_eq)

lemma broadcast_eq:
  "broadcast message st =
     st\<lparr>trace := trace st @ Stringify (PMessage message)
                  # map (attempt (ws_open st) (PMessage message)) (sessions st)\<rparr>"
  by (simp add: broadcast_def JSON_stringify_def emit_def fold_broadcast_to)

lemma sendMessageHistory_eq:
  "sendMessageHistory s st =
     st\<lparr>trace := trace st @
        [Stringify (PHistory (messageHistory st)),
         if ws_open st (webSocket s) then WsSend (webSocket s) (PHistory (messageHistory st))
         else ConsoleError ''Error sending history:'']\<rparr>"
  by (simp add: sendMessageHistory_def JSON_stringify_def webSocket_send_def console_error_def emit_def)

lemma sendPresence_eq:
  "sendPresence s st =
     st\<lparr>trace := trace st @
        [Stringify (PPresence (roster (sessions st))),
         if ws_open st (webSocket s) then WsSend (webSocket s) (PPresence (roster (sessions st)))
         else ConsoleError ''Error sending presence:'']\<rparr>"
  by (simp add: sendPresence_def Let_def JSON_stringify_def webSocket_send_def console_error_def
      emit_def roster_def)

lemma received_append: "received ws (es @ fs) = received ws es @ received ws fs"
  by (induction ws es rule: received.induct) simp_all

lemma received_attempt_Cons:
  "received ws (attempt opn text a # es) =
     (if opn (webSocket a) \<and> webSocket a = ws then text # received ws es else received ws es)"
  by (auto simp add: attempt_def)

lemma received_attempts_other:
  "ws \<notin> webSocket ` set ss \<Longrightarrow> received ws (map (attempt opn text) ss) = []"
  by (induction ss) (simp_all add: received_attempt_Cons)

lemma received_attempts_member:
  "distinct (map webSocket ss) \<Longrightarrow> s \<in> set ss \<Longrightarrow>
   received (webSocket s) (map (attempt opn text) ss) = (if opn (webSocket s) then [text] else [])"
proof (induction ss)
  case Nil
  then show ?case by simp
next
  case (Cons a ss)
  show ?case
  proof (cases "a = s")
    case True
    with Cons.prems have "webSocket s \<notin> webSocket ` set ss" by auto
    then have "received (webSocket s) (map (attempt opn text) ss) = []"
      by (rule received_attempts_other)
    with True show ?thesis by (simp add: received_attempt_Cons)
  next
    case False
    with Cons.prems have "s \<in> set ss" and "webSocket a \<noteq> webSocket s"
      and "distinct (map webSocket ss)"
      by auto
    with Cons.IH show ?thesis by (simp add: received_attempt_Cons)
  qed
qed

lemma fetch_admits:
  assumes ok: "room_ok st" and valid: "valid_request request uid uname"
  shows "fetch request uuid now st =
     (\<lparr> status = 101, body = None, client_webSocket = Some (next_ws st) \<rparr>,
      st\<lparr>sessions := sessions st @ [\<lparr> webSocket = next_ws st + 1, userId = uid, username = uname, quit = None \<rparr>],
         ws_open := (ws_open st)(next_ws st + 1 := True),
         next_ws := next_ws st + 2,
         trace := trace st @
           [Stringify (PHistory (messageHistory st)),
            WsSend (next_ws st + 1) (PHistory (messageHistory st)),
            Stringify (PMessage (join_message uid uname uuid now))] @
           map (attempt ((ws_open st)(next_ws st + 1 := True)) (PMessage (join_message uid uname uuid now)))
               (sessions st @ [\<lparr> webSocket = next_ws st + 1, userId = uid, username = uname, quit = None \<rparr>]) @
           [Stringify (PPresence (roster (sessions st @ [\<lparr> webSocket = next_ws st + 1, userId = uid, username = uname, quit = None \<rparr>]))),
            WsSend (next_ws st + 1) (PPresence (roster (sessions st @ [\<lparr> webSocket = next_ws st + 1, userId = uid, username = uname, quit = None \<rparr>])))]\<rparr>)"
proof -
  have fresh: "\<lparr> webSocket = next_ws st + 1, userId = uid, username = uname, quit = None \<rparr> \<notin> set (sessions st)"
    using ok by (auto simp add: room_ok_def)
  show ?thesis
    using valid fresh
    by (simp add: fetch_def valid_request_def Let_def Set_add_def sendMessageHistory_eq
        broadcast_eq sendPresence_eq join_message_def)
qed

lemma room_ok_new: "room_ok (new_ChatRoom stored pending)"
  by (simp add: room_ok_def new_ChatRoom_def)

section \<open>Admission\<close>

text \<open>
  Claim C1. A request with both identity fields non-empty and the websocket upgrade is
  answered with status 101 and adds one session, on a fresh socket, at the end of the live
  set. What the room does then is, in this order: it serialises the whole history and sends
  it to the new socket; it serialises a join message carrying the request's user id and
  name and attempts a send to every live session, the new one included and last; it
  serialises the roster of all live sessions and sends it to the new socket. The new socket
  thus receives exactly three frames, the history, the join and the roster, in that order;
  every session that was live before receives the join and nothing else when its socket is
  open, and nothing when it is not.
\<close>

theorem admission_order:
  assumes ok: "room_ok st" and valid: "valid_request request uid uname"
  shows
    "(let st' = snd (fetch request uuid now st);
          new = \<lparr> webSocket = next_ws st + 1, userId = uid, username = uname, quit = None \<rparr>;
          history = PHistory (messageHistory st);
          join = PMessage (join_message uid uname uuid now);
          presence = PPresence (roster (sessions st @ [new]))
      in status (fst (fetch request uuid now st)) = 101
       \<and> sessions st' = sessions st @ [new]
       \<and> new_effects st st' =
           [Stringify history, WsSend (webSocket new) history, Stringify join]
           @ map (attempt (ws_open st') join) (sessions st')
           @ [Stringify presence, WsSend (webSocket new) presence]
       \<and> received (webSocket new) (new_effects st st') = [history, join, presence]
       \<and> (\<forall>s \<in> set (sessions st).
             received (webSocket s) (new_effects st st')
               = (if ws_open st (webSocket s) then [join] else [])))"
proof -
  define new where "new = \<lparr> webSocket = next_ws st + 1, userId = uid, username = uname, quit = None \<rparr>"
  define history where "history = PHistory (messageHistory st)"
  define join where "join = PMessage (join_message uid uname uuid now)"
  define opn where "opn = (ws_open st)(next_ws st + 1 := True)"
  define ss where "ss = sessions st @ [new]"
  define presence where "presence = PPresence (roster ss)"
  define st' where "st' = snd (fetch request uuid now st)"
  have old: "webSocket s < next_ws st" if "s \<in> set (sessions st)" for s
    using ok that by (simp add: room_ok_def)
  have "next_ws st + 1 \<notin> webSocket ` set (sessions st)"
  proof
    assume "next_ws st + 1 \<in> webSocket ` set (sessions st)"
    then obtain s where "s \<in> set (sessions st)" and "webSocket s = next_ws st + 1"
      by auto
    with old [of s] show False by simp
  qed
  then have dist: "distinct (map webSocket ss)"
    using ok by (simp add: room_ok_def new_def ss_def)
  have own: "received (next_ws st + 1) (map (attempt opn join) ss) = [join]"
    using received_attempts_member [OF dist, of new opn join] by (simp add: new_def opn_def ss_def)
  have others: "received (webSocket s) (map (attempt opn join) ss)
                  = (if ws_open st (webSocket s) then [join] else [])"
    if "s \<in> set (sessions st)" for s
    using received_attempts_member [OF dist, of s opn join] that old [OF that]
    by (simp add: opn_def ss_def)
  note eq = fetch_admits [OF ok valid, of uuid now, folded new_def, folded ss_def opn_def join_def
      history_def, folded presence_def]
  have 1: "status (fst (fetch request uuid now st)) = 101"
    by (simp add: eq)
  have 2: "sessions st' = ss" and 3: "ws_open st' = opn"
    by (simp_all add: st'_def eq)
  have 4: "new_effects st st' =
      [Stringify history, WsSend (next_ws st + 1) history, Stringify join]
      @ map (attempt opn join) ss @ [Stringify presence, WsSend (next_ws st + 1) presence]"
    by (simp add: st'_def eq new_effects_def)
  have 5: "received (next_ws st + 1) (new_effects st st') = [history, join, presence]"
    unfolding 4 received_append own by simp
  have 6: "received (webSocket s) (new_effects st st')
             = (if ws_open st (webSocket s) then [join] else [])"
    if "s \<in> set (sessions st)" for s
  proof -
    from old [OF that] have "next_ws st + 1 \<noteq> webSocket s" by simp
    then show ?thesis
      unfolding 4 received_append others [OF that] by simp
  qed
  have sel: "webSocket new = next_ws st + 1"
    by (simp add: new_def)
  show ?thesis
    unfolding Let_def
    unfolding new_def [symmetric] ss_def [symmetric] history_def [symmetric] join_def [symmetric]
    unfolding presence_def [symmetric] st'_def [symmetric] sel
    using 1 2 3 4 5 6 by simp
qed


text \<open>
  Bob joins a room that holds two messages and has Alice in it, with a request whose upgrade
  header is named in lower case.
\<close>

lemma Headers_get_samples:
  "Headers_get ''Upgrade'' [(''Upgrade'', ''websocket'')] = Some ''websocket''"
  "Headers_get ''Upgrade'' [(''host'', ''chat.example''), (''upgrade'', ''websocket'')]
     = Some ''websocket''"
  "Headers_get ''Upgrade'' [] = None"
  "Headers_get ''Upgrade'' [(''Upgrade'', ''websocket''), (''Upgrade'', ''websocket'')]
     = Some ''websocket, websocket''"
  by (simp_all add: Headers_get_def ascii_lower_def)

lemma valid_websocket_request:
  "uid \<noteq> [] \<Longrightarrow> uname \<noteq> [] \<Longrightarrow> valid_request (websocket_request uid uname) uid uname"
  by (simp add: valid_request_def websocket_request_def Headers_get_samples)

lemma valid_lowercase_request:
  "uid \<noteq> [] \<Longrightarrow> uname \<noteq> [] \<Longrightarrow> valid_request (lowercase_request uid uname) uid uname"
  by (simp add: valid_request_def lowercase_request_def Headers_get_samples)

text \<open>The valid requests are all the requests \<^verbatim>\<open>fetch\<close> does not turn away.\<close>

lemma valid_iff_not_rejected:
  "(\<exists>uid uname. valid_request request uid uname)
     \<longleftrightarrow> \<not> missing_identity request \<and> \<not> no_upgrade request"
  by (cases "map_of (searchParams request) ''userId''";
      cases "map_of (searchParams request) ''username''")
     (auto simp add: valid_request_def missing_identity_def no_upgrade_def)

lemma restored_with_alice_fields:
  "sessions restored_with_alice = [alice]"
  "messageHistory restored_with_alice = [stale, recent]"
  "next_ws restored_with_alice = 2"
  "ws_open restored_with_alice = (\<lambda>ws. False)(1 := True)"
proof -
  have v: "valid_request (websocket_request ''u1'' ''Alice'') ''u1'' ''Alice''"
    by (simp add: valid_websocket_request)
  have ok: "room_ok restored_room"
    unfolding restored_room_def by (rule room_ok_new)
  note eq = fetch_admits [OF ok v]
  show "sessions restored_with_alice = [alice]"
    "messageHistory restored_with_alice = [stale, recent]"
    "next_ws restored_with_alice = 2"
    "ws_open restored_with_alice = (\<lambda>ws. False)(1 := True)"
    unfolding restored_with_alice_def eq
    by (simp_all add: restored_room_def new_ChatRoom_def alice_def)
qed

lemma room_ok_restored_with_alice: "room_ok restored_with_alice"
  by (simp add: room_ok_def restored_with_alice_fields alice_def)

lemma room_with_alice_fields:
  "sessions room_with_alice = [alice]"
  "messageHistory room_with_alice = []"
  "next_ws room_with_alice = 2"
  "ws_open room_with_alice = (\<lambda>ws. False)(1 := True)"
  "stored_messages room_with_alice = None"
proof -
  have v: "valid_request (websocket_request ''u1'' ''Alice'') ''u1'' ''Alice''"
    by (simp add: valid_websocket_request)
  note eq = fetch_admits [OF room_ok_new v]
  show "sessions room_with_alice = [alice]"
    "messageHistory room_with_alice = []"
    "next_ws room_with_alice = 2"
    "ws_open room_with_alice = (\<lambda>ws. False)(1 := True)"
    "stored_messages room_with_alice = None"
    unfolding room_with_alice_def eq by (simp_all add: new_ChatRoom_def alice_def)
qed

lemma room_ok_with_alice: "room_ok room_with_alice"
  by (simp add: room_ok_def room_with_alice_fields alice_def)

theorem admission_order_witness:
  "room_ok restored_with_alice
   \<and> messageHistory restored_with_alice = [stale, recent]
   \<and> valid_request (lowercase_request ''u2'' ''Bob'') ''u2'' ''Bob''
   \<and> status (fst (fetch (lowercase_request ''u2'' ''Bob'') ''id-2'' 2000 restored_with_alice)) = 101
   \<and> sessions (snd (fetch (lowercase_request ''u2'' ''Bob'') ''id-2'' 2000 restored_with_alice))
       = [alice, bob]
   \<and> received 3 (new_effects restored_with_alice
        (snd (fetch (lowercase_request ''u2'' ''Bob'') ''id-2'' 2000 restored_with_alice)))
       = [PHistory [stale, recent], PMessage (join_message ''u2'' ''Bob'' ''id-2'' 2000),
          PPresence [(''u1'', ''Alice''), (''u2'', ''Bob'')]]
   \<and> received 1 (new_effects restored_with_alice
        (snd (fetch (lowercase_request ''u2'' ''Bob'') ''id-2'' 2000 restored_with_alice)))
       = [PMessage (join_message ''u2'' ''Bob'' ''id-2'' 2000)]"
proof -
  have h1: "room_ok restored_with_alice"
    by (rule room_ok_restored_with_alice)
  have h2: "valid_request (lowercase_request ''u2'' ''Bob'') ''u2'' ''Bob''"
    by (simp add: valid_lowercase_request)
  note t = admission_order [OF h1 h2, of "''id-2''" 2000, unfolded Let_def]
  note answered = t [THEN conjunct1]
  note joined = t [THEN conjunct2, THEN conjunct1]
  note own = t [THEN conjunct2, THEN conjunct2, THEN conjunct2, THEN conjunct1]
  note others = t [THEN conjunct2, THEN conjunct2, THEN conjunct2, THEN conjunct2]
  show ?thesis
    using h1 h2 answered joined own others
    by (simp add: restored_with_alice_fields roster_def alice_def bob_def)
qed

text \<open>
  Claim C8. A request whose user id or user name is missing or empty is answered with
  status 400 (the invalid-request rejection); a request that names both but for which
  \<^verbatim>\<open>headers.get('Upgrade')\<close> is not the string \<^verbatim>\<open>websocket\<close>, the header's name taken in any
  case, is answered with status 426 (the unsupported-protocol rejection). Either way \<^verbatim>\<open>fetch\<close> returns normally and leaves the room exactly as it was: no
  session, no socket, no history change and no effect.
\<close>

theorem admission_rejected:
  "(missing_identity request \<longrightarrow> fetch request uuid now st = (InvalidRequest, st))
   \<and> (\<not> missing_identity request \<and> no_upgrade request
        \<longrightarrow> fetch request uuid now st = (UnsupportedProtocol, st))"
  by (simp add: fetch_def missing_identity_def no_upgrade_def InvalidRequest_def
      UnsupportedProtocol_def)

theorem admission_rejected_witness:
  "missing_identity request_without_userId
   \<and> fetch request_without_userId ''id-2'' 2000 room_with_alice = (InvalidRequest, room_with_alice)
   \<and> \<not> missing_identity request_without_upgrade
   \<and> no_upgrade request_without_upgrade
   \<and> fetch request_without_upgrade ''id-2'' 2000 room_with_alice
       = (UnsupportedProtocol, room_with_alice)
   \<and> \<not> missing_identity doubled_upgrade_request
   \<and> no_upgrade doubled_upgrade_request
   \<and> fetch doubled_upgrade_request ''id-2'' 2000 room_with_alice
       = (UnsupportedProtocol, room_with_alice)
   \<and> \<not> no_upgrade (lowercase_request ''u2'' ''Bob'')
   \<and> sessions room_with_alice = [alice]"
proof -
  have h1: "missing_identity request_without_userId"
    by (simp add: missing_identity_def request_without_userId_def)
  have h2: "\<not> missing_identity request_without_upgrade"
    by (simp add: missing_identity_def request_without_upgrade_def)
  have h3: "no_upgrade request_without_upgrade"
    by (simp add: no_upgrade_def request_without_upgrade_def Headers_get_samples)
  have h4: "\<not> missing_identity doubled_upgrade_request"
    by (simp add: missing_identity_def doubled_upgrade_request_def)
  have h5: "no_upgrade doubled_upgrade_request"
    by (simp add: no_upgrade_def doubled_upgrade_request_def Headers_get_samples)
  have h6: "\<not> no_upgrade (lowercase_request ''u2'' ''Bob'')"
    by (simp add: no_upgrade_def lowercase_request_def Headers_get_samples)
  note t = admission_rejected [where uuid = "''id-2''" and now = 2000 and st = room_with_alice]
  from h1 t [of request_without_userId]
  have r1: "fetch request_without_userId ''id-2'' 2000 room_with_alice
              = (InvalidRequest, room_with_alice)"
    by blast
  from h2 h3 t [of request_without_upgrade]
  have r2: "fetch request_without_upgrade ''id-2'' 2000 room_with_alice
              = (UnsupportedProtocol, room_with_alice)"
    by blast
  from h4 h5 t [of doubled_upgrade_request]
  have r3: "fetch doubled_upgrade_request ''id-2'' 2000 room_with_alice
              = (UnsupportedProtocol, room_with_alice)"
    by blast
  show ?thesis
    using h1 h2 h3 h4 h5 h6 r1 r2 r3 by (simp add: room_with_alice_fields)
qed

section \<open>Broadcast\<close>

lemma filter_Stringify_attempts [simp]: "filter is_Stringify (map (attempt opn text) ss) = []"
  by (induction ss) (simp_all add: attempt_def)

text \<open>
  Claim C6. \<^verbatim>\<open>broadcast\<close> serialises the message once and then takes the live sessions in
  order, one attempt each: the frame is sent when the session's socket is open, and
  the failure is logged, with the loop going on, when it is not. It returns normally whatever
  the sockets do, and changes nothing of the room but the effects it adds. Every live
  session with an open socket receives the frame and, the sockets of the live sessions
  differing, receives it exactly once.
\<close>

theorem broadcast_best_effort:
  "(let st' = broadcast message st; text = PMessage message
    in st' = st\<lparr>trace := trace st @ new_effects st st'\<rparr>
     \<and> new_effects st st' = Stringify text # map (attempt (ws_open st) text) (sessions st)
     \<and> length (filter is_Stringify (new_effects st st')) = 1
     \<and> (\<forall>s \<in> set (sessions st). ws_open st (webSocket s)
           \<longrightarrow> text \<in> set (received (webSocket s) (new_effects st st')))
     \<and> (room_ok st \<longrightarrow> (\<forall>s \<in> set (sessions st).
           received (webSocket s) (new_effects st st')
             = (if ws_open st (webSocket s) then [text] else []))))"
proof -
  define frame where "frame = PMessage message"
  define st' where "st' = broadcast message st"
  have eff: "new_effects st st' = Stringify frame # map (attempt (ws_open st) frame) (sessions st)"
    by (simp add: st'_def broadcast_eq new_effects_def frame_def)
  have same: "st' = st\<lparr>trace := trace st @ new_effects st st'\<rparr>"
    unfolding eff by (simp add: st'_def broadcast_eq frame_def)
  have once: "length (filter is_Stringify (new_effects st st')) = 1"
    unfolding eff by simp
  have got: "frame \<in> set (received (webSocket s) (map (attempt opn frame) ss))"
    if "s \<in> set ss" and "opn (webSocket s)" for s ss opn
    using that by (induction ss) (auto simp add: received_attempt_Cons)
  have each: "frame \<in> set (received (webSocket s) (new_effects st st'))"
    if "s \<in> set (sessions st)" and "ws_open st (webSocket s)" for s
    unfolding eff using got [of s "sessions st" "ws_open st"] that by simp
  have exact: "received (webSocket s) (new_effects st st')
                 = (if ws_open st (webSocket s) then [frame] else [])"
    if "room_ok st" and "s \<in> set (sessions st)" for s
    unfolding eff using that received_attempts_member [of "sessions st" s "ws_open st" frame]
    by (simp add: room_ok_def)
  show ?thesis
    unfolding Let_def frame_def [symmetric] st'_def [symmetric]
    using same eff once each exact by blast
qed

lemma room_with_both_fields:
  "sessions room_with_both = [alice, bob]"
  "messageHistory room_with_both = []"
  "next_ws room_with_both = 4"
  "ws_open room_with_both = (\<lambda>ws. False)(1 := True, 3 := True)"
  "stored_messages room_with_both = None"
proof -
  have v: "valid_request (websocket_request ''u2'' ''Bob'') ''u2'' ''Bob''"
    by (simp add: valid_websocket_request)
  note eq = fetch_admits [OF room_ok_with_alice v]
  show "sessions room_with_both = [alice, bob]"
    "messageHistory room_with_both = []"
    "next_ws room_with_both = 4"
    "ws_open room_with_both = (\<lambda>ws. False)(1 := True, 3 := True)"
    "stored_messages room_with_both = None"
    unfolding room_with_both_def eq by (simp_all add: room_with_alice_fields bob_def)
qed

lemma room_ok_with_both: "room_ok room_with_both"
  by (simp add: room_ok_def room_with_both_fields alice_def bob_def)

theorem broadcast_best_effort_witness:
  "room_ok room_alice_dropped
   \<and> sessions room_alice_dropped = [alice, bob]
   \<and> \<not> ws_open room_alice_dropped (webSocket alice)
   \<and> ws_open room_alice_dropped (webSocket bob)
   \<and> new_effects room_alice_dropped (broadcast hello room_alice_dropped)
       = [Stringify (PMessage hello), ConsoleError ''Error broadcasting to session:'',
          WsSend 3 (PMessage hello)]
   \<and> received (webSocket bob) (new_effects room_alice_dropped (broadcast hello room_alice_dropped))
       = [PMessage hello]
   \<and> received (webSocket alice) (new_effects room_alice_dropped (broadcast hello room_alice_dropped))
       = []"
proof -
  have h1: "room_ok room_alice_dropped"
    using room_ok_with_both by (simp add: room_ok_def room_alice_dropped_def)
  have h2: "sessions room_alice_dropped = [alice, bob]"
    by (simp add: room_alice_dropped_def room_with_both_fields)
  have h3: "\<not> ws_open room_alice_dropped (webSocket alice)"
    and h4: "ws_open room_alice_dropped (webSocket bob)"
    by (simp_all add: room_alice_dropped_def room_with_both_fields alice_def bob_def)
  note t = broadcast_best_effort [of hello room_alice_dropped, unfolded Let_def]
  note eff = t [THEN conjunct2, THEN conjunct1]
  note exact = t [THEN conjunct2, THEN conjunct2, THEN conjunct2, THEN conjunct2, rule_format, OF h1]
  have a: "alice \<in> set (sessions room_alice_dropped)" and b: "bob \<in> set (sessions room_alice_dropped)"
    by (simp_all add: h2)
  show ?thesis
    using h1 h2 h3 h4 eff exact [OF a] exact [OF b]
    by (simp add: attempt_def bob_def alice_def)
qed

section \<open>Cleanup\<close>

lemma restored_room_fields:
  "messageHistory restored_room = [stale, recent]"
  "stored_messages restored_room = Some [stale, recent]"
  "stored_alarm restored_room = None"
  "trace restored_room = []"
  by (simp_all add: restored_room_def new_ChatRoom_def)

lemma filter_restored:
  "filter (\<lambda>msg. 90000000 - 86400000 < m_timestamp msg) [stale, recent] = [recent]"
  by (simp add: stale_def recent_def chat_message_def)

text \<open>
  Claim C5, as the code has it. \<open>now\<close> is the clock reading the firing filters against and
  \<open>now'\<close> the reading it takes after the write. Whatever the storage answers, the history
  keeps, in order, exactly the entries whose timestamp is later than \<open>now\<close> minus 24 hours,
  so none that is retained is older. When the storage fulfils the write and then the alarm
  call, the filtered history is what the store holds, the alarm is set once, to \<open>now'\<close> plus
  one hour, and that is the one pending alarm; it is no earlier than \<open>now\<close> plus one hour
  when the clock has not gone back, and is \<open>now\<close> plus one hour when the two readings are the
  same. When the storage rejects the write, the firing ends with the error, and the store
  and the pending alarm are what they were: nothing is written and no alarm is set. When
  it fulfils the write and rejects the alarm call, the filtered history is stored and the
  pending alarm is what it was.
\<close>

theorem cleanup_prunes_and_rearms:
  "(let result = fst (alarm now put_fulfilled now' setAlarm_fulfilled st);
        st' = snd (alarm now put_fulfilled now' setAlarm_fulfilled st);
        kept = filter (\<lambda>msg. now - 86400000 < m_timestamp msg) (messageHistory st);
        due = now' + 3600000
    in messageHistory st' = kept
     \<and> (\<forall>msg \<in> set (messageHistory st'). now - 86400000 < m_timestamp msg)
     \<and> sessions st' = sessions st
     \<and> (put_fulfilled \<and> setAlarm_fulfilled \<longrightarrow>
          result = None
          \<and> stored_messages st' = Some kept
          \<and> stored_alarm st' = Some due
          \<and> new_effects st st' = [StoragePut kept, SetAlarm due]
          \<and> length (filter is_SetAlarm (new_effects st st')) = 1
          \<and> (now \<le> now' \<longrightarrow> now + 3600000 \<le> due)
          \<and> (now' = now \<longrightarrow> due = now + 3600000))
     \<and> (\<not> put_fulfilled \<longrightarrow>
          result = Some StorageError
          \<and> stored_messages st' = stored_messages st
          \<and> stored_alarm st' = stored_alarm st
          \<and> new_effects st st' = [])
     \<and> (put_fulfilled \<and> \<not> setAlarm_fulfilled \<longrightarrow>
          result = Some StorageError
          \<and> stored_messages st' = Some kept
          \<and> stored_alarm st' = stored_alarm st
          \<and> new_effects st st' = [StoragePut kept]))"
  by (simp add: alarm_def Let_def storage_put_def storage_setAlarm_def emit_def new_effects_def)

theorem cleanup_prunes_and_rearms_witness:
  "messageHistory (snd (alarm 90000000 True 90000005 True restored_room)) = [recent]
   \<and> recent \<in> set (messageHistory (snd (alarm 90000000 True 90000005 True restored_room)))
   \<and> 90000000 - 86400000 < m_timestamp recent
   \<and> fst (alarm 90000000 True 90000005 True restored_room) = None
   \<and> stored_messages (snd (alarm 90000000 True 90000005 True restored_room)) = Some [recent]
   \<and> stored_alarm (snd (alarm 90000000 True 90000005 True restored_room)) = Some 93600005
   \<and> stored_alarm (snd (alarm 90000000 True 90000000 True restored_room)) = Some 93600000
   \<and> fst (alarm 90000000 False 90000005 True restored_room) = Some StorageError
   \<and> messageHistory (snd (alarm 90000000 False 90000005 True restored_room)) = [recent]
   \<and> stored_alarm (snd (alarm 90000000 False 90000005 True restored_room)) = None
   \<and> fst (alarm 90000000 True 90000005 False restored_room) = Some StorageError
   \<and> stored_messages (snd (alarm 90000000 True 90000005 False restored_room)) = Some [recent]
   \<and> stored_alarm (snd (alarm 90000000 True 90000005 False restored_room)) = None"
proof -
  note t = cleanup_prunes_and_rearms [where now = 90000000 and st = restored_room,
      unfolded Let_def restored_room_fields filter_restored]
  note both = t [where put_fulfilled = True and setAlarm_fulfilled = True and now' = 90000005]
  note same = t [where put_fulfilled = True and setAlarm_fulfilled = True and now' = 90000000]
  note no_put = t [where put_fulfilled = False and setAlarm_fulfilled = True and now' = 90000005]
  note no_alarm = t [where put_fulfilled = True and setAlarm_fulfilled = False and now' = 90000005]
  have kept: "messageHistory (snd (alarm 90000000 True 90000005 True restored_room)) = [recent]"
    using both [THEN conjunct1] .
  have newer: "90000000 - 86400000 < m_timestamp recent"
    using both [THEN conjunct2, THEN conjunct1] by (simp add: kept)
  have fulfilled: "fst (alarm 90000000 True 90000005 True restored_room) = None"
    "stored_messages (snd (alarm 90000000 True 90000005 True restored_room)) = Some [recent]"
    "stored_alarm (snd (alarm 90000000 True 90000005 True restored_room)) = Some 93600005"
    using both [THEN conjunct2, THEN conjunct2, THEN conjunct2, THEN conjunct1] by simp_all
  have at_once: "stored_alarm (snd (alarm 90000000 True 90000000 True restored_room)) = Some 93600000"
    using same [THEN conjunct2, THEN conjunct2, THEN conjunct2, THEN conjunct1] by simp
  have rejected: "fst (alarm 90000000 False 90000005 True restored_room) = Some StorageError"
    "messageHistory (snd (alarm 90000000 False 90000005 True restored_room)) = [recent]"
    "stored_alarm (snd (alarm 90000000 False 90000005 True restored_room)) = None"
    using no_put [THEN conjunct1]
      no_put [THEN conjunct2, THEN conjunct2, THEN conjunct2, THEN conjunct2, THEN conjunct1]
    by simp_all
  have unarmed: "fst (alarm 90000000 True 90000005 False restored_room) = Some StorageError"
    "stored_messages (snd (alarm 90000000 True 90000005 False restored_room)) = Some [recent]"
    "stored_alarm (snd (alarm 90000000 True 90000005 False restored_room)) = None"
    using no_alarm [THEN conjunct2, THEN conjunct2, THEN conjunct2, THEN conjunct2, THEN conjunct2]
    by simp_all
  show ?thesis
    using kept newer fulfilled at_once rejected unarmed by simp
qed

text \<open>
  Claim C5 as it is written fails. The room is restored from a store that holds a stale and
  a recent message and has no alarm pending. The alarm fires and the storage rejects the
  write: the history in memory is filtered, but the store still holds the stale message
  and no firing is scheduled. And when the storage fulfils both calls and the clock reads
  five milliseconds more after the write, the firing is scheduled an hour after that
  second reading, not an hour after the first.
\<close>

theorem cleanup_write_rejected:
  "stored_messages restored_room = Some [stale, recent]
   \<and> stored_alarm restored_room = None
   \<and> m_timestamp stale < 90000000 - 86400000
   \<and> fst (alarm 90000000 False 90000005 True restored_room) = Some StorageError
   \<and> messageHistory (snd (alarm 90000000 False 90000005 True restored_room)) = [recent]
   \<and> stored_messages (snd (alarm 90000000 False 90000005 True restored_room))
       = Some [stale, recent]
   \<and> stored_alarm (snd (alarm 90000000 False 90000005 True restored_room)) = None
   \<and> new_effects restored_room (snd (alarm 90000000 False 90000005 True restored_room)) = []
   \<and> stored_alarm (snd (alarm 90000000 True 90000005 True restored_room)) = Some 93600005
   \<and> (93600005 :: int) \<noteq> 90000000 + 3600000"
  by (simp add: alarm_def Let_def storage_put_def storage_setAlarm_def emit_def new_effects_def
      restored_room_fields stale_def recent_def chat_message_def)

section \<open>Inbound frames\<close>

lemma slice_last_short: "length xs \<le> n \<Longrightarrow> slice_last n xs = xs"
  by (simp add: slice_last_def)

lemma length_slice_last: "length (slice_last n xs) = min n (length xs)"
  by (simp add: slice_last_def)

lemma slice_last_append_slice:
  "slice_last n (slice_last n xs @ ys) = slice_last n (xs @ ys)"
proof (cases "length xs \<le> n")
  case True
  then show ?thesis by (simp add: slice_last_def)
next
  case False
  then have "length xs + length ys - (length xs - n + n) + (length xs - n)
             = length xs + length ys - n" by arith
  then show ?thesis using False by (simp add: slice_last_def)
qed

lemma accepted_props:
  assumes "accepted parsed"
  shows "getProperty parsed ''type'' = Inr (Some (JString ''message''))"
    and "getProperty parsed ''content'' = Inr (content_of parsed)"
    and "ToBoolean (content_of parsed)"
  using assms by (cases parsed; simp add: accepted_def content_of_def)+

lemma well_formed_accepted: "well_formed parsed \<Longrightarrow> accepted parsed"
  by (cases parsed) (auto simp add: well_formed_def accepted_def split: option.split_asm json.split_asm)

lemma handleMessage_accepted:
  assumes "data_accepted JSON_parse data"
  shows "handleMessage JSON_parse session data uuid now st =
     st\<lparr>messageHistory :=
          slice_last 100 (messageHistory st @ [minted JSON_parse (session, data, uuid, now)]),
        stored_messages :=
          Some (slice_last 100 (messageHistory st @ [minted JSON_parse (session, data, uuid, now)])),
        trace := trace st @
          StoragePut (slice_last 100 (messageHistory st @ [minted JSON_parse (session, data, uuid, now)]))
          # Stringify (PMessage (minted JSON_parse (session, data, uuid, now)))
          # map (attempt (ws_open st) (PMessage (minted JSON_parse (session, data, uuid, now))))
                (sessions st)\<rparr>"
proof -
  from assms obtain parsed where p: "JSON_parse data = Some parsed" and a: "accepted parsed"
    by (auto simp add: data_accepted_def split: option.splits)
  show ?thesis
    using p accepted_props [OF a]
    by (simp add: handleMessage_def Let_def storage_put_def emit_def broadcast_eq chat_message_def
        slice_last_short data_content_def)
qed

lemma handleMessage_discarded:
  assumes "\<not> data_accepted JSON_parse data"
  shows "handleMessage JSON_parse session data uuid now st = st
       \<or> handleMessage JSON_parse session data uuid now st
           = st\<lparr>trace := trace st @ [ConsoleError ''Error handling message:'']\<rparr>"
proof (cases "JSON_parse data")
  case None
  then show ?thesis by (simp add: handleMessage_def console_error_def emit_def)
next
  case (Some parsed)
  with assms have "\<not> accepted parsed" by (simp add: data_accepted_def)
  with Some show ?thesis
    by (cases parsed)
       (auto simp add: handleMessage_def console_error_def emit_def accepted_def)
qed

lemma run_Cons: "run JSON_parse (e # es) st = run JSON_parse es (dispatch JSON_parse e st)"
  by (simp add: run_def)

lemma run_Nil: "run JSON_parse [] st = st"
  by (simp add: run_def)

lemma run_arrivals:
  assumes "\<forall>f \<in> set arrivals. arrival_accepted JSON_parse f" and "arrivals \<noteq> []"
  shows "messageHistory (run JSON_parse (map arrival_event arrivals) st)
           = slice_last 100 (messageHistory st @ map (minted JSON_parse) arrivals)"
  using assms
proof (induction arrivals arbitrary: st)
  case Nil
  then show ?case by simp
next
  case (Cons f fs)
  obtain session data uuid now where f: "f = (session, data, uuid, now)"
    by (cases f) auto
  from Cons.prems have acc: "data_accepted JSON_parse data"
    by (simp add: f)
  define st1 where "st1 = handleMessage JSON_parse session data uuid now st"
  have h1: "messageHistory st1 = slice_last 100 (messageHistory st @ [minted JSON_parse f])"
    unfolding st1_def handleMessage_accepted [OF acc] by (simp add: f)
  show ?case
  proof (cases "fs = []")
    case True
    then show ?thesis using h1 by (simp add: f run_Cons run_Nil st1_def)
  next
    case False
    with Cons.prems have "messageHistory (run JSON_parse (map arrival_event fs) st1)
           = slice_last 100 (messageHistory st1 @ map (minted JSON_parse) fs)"
      by (intro Cons.IH) simp_all
    then show ?thesis
      by (simp add: f run_Cons st1_def [symmetric] h1 [unfolded f] slice_last_append_slice)
  qed
qed

lemma parse_sample_hi:
  "parse_sample hi_frame = Some (JObject [(''type'', JString ''message''), (''content'', JString ''hi'')])"
  by (simp add: parse_sample_def)

lemma hi_accepted: "data_accepted parse_sample hi_frame"
  by (simp add: data_accepted_def parse_sample_hi accepted_def)

lemma many_arrivals_accepted: "\<forall>f \<in> set (many_arrivals n). arrival_accepted parse_sample f"
  by (auto simp add: many_arrivals_def hi_accepted)

text \<open>
  Claim C2. Handling a frame the room takes in leaves the history equal to the old history
  with the minted message appended, less as many entries at its front as make it longer
  than 100: never more than 100 entries, the most recent ones, in insertion order; that is
  also what is written to the store. The same holds of any run of such frames, and 101 of
  them sent to a room that starts empty leave exactly the last 100.
\<close>

theorem history_capped:
  "(data_accepted JSON_parse data \<longrightarrow>
      (let st' = handleMessage JSON_parse session data uuid now st;
           appended = messageHistory st @ [minted JSON_parse (session, data, uuid, now)]
       in messageHistory st' = drop (length appended - 100) appended
        \<and> length (messageHistory st') \<le> 100
        \<and> stored_messages st' = Some (messageHistory st')))
   \<and> (arrivals \<noteq> [] \<and> (\<forall>f \<in> set arrivals. arrival_accepted JSON_parse f) \<longrightarrow>
      (let st' = run JSON_parse (map arrival_event arrivals) st;
           appended = messageHistory st @ map (minted JSON_parse) arrivals
       in messageHistory st' = drop (length appended - 100) appended
        \<and> length (messageHistory st') \<le> 100))
   \<and> (length arrivals = 101 \<and> (\<forall>f \<in> set arrivals. arrival_accepted JSON_parse f) \<longrightarrow>
      (let st' = run JSON_parse (map arrival_event arrivals) (new_ChatRoom None pending)
       in messageHistory st' = tl (map (minted JSON_parse) arrivals)
        \<and> length (messageHistory st') = 100))"
proof (intro conjI impI)
  assume acc: "data_accepted JSON_parse data"
  show "let st' = handleMessage JSON_parse session data uuid now st;
            appended = messageHistory st @ [minted JSON_parse (session, data, uuid, now)]
        in messageHistory st' = drop (length appended - 100) appended
         \<and> length (messageHistory st') \<le> 100
         \<and> stored_messages st' = Some (messageHistory st')"
    unfolding Let_def handleMessage_accepted [OF acc]
    by (simp add: slice_last_def)
next
  assume "arrivals \<noteq> [] \<and> (\<forall>f \<in> set arrivals. arrival_accepted JSON_parse f)"
  then have eq: "messageHistory (run JSON_parse (map arrival_event arrivals) st)
           = slice_last 100 (messageHistory st @ map (minted JSON_parse) arrivals)"
    by (intro run_arrivals) simp_all
  show "let st' = run JSON_parse (map arrival_event arrivals) st;
            appended = messageHistory st @ map (minted JSON_parse) arrivals
        in messageHistory st' = drop (length appended - 100) appended
         \<and> length (messageHistory st') \<le> 100"
    unfolding Let_def eq by (simp add: slice_last_def)
next
  assume a: "length arrivals = 101 \<and> (\<forall>f \<in> set arrivals. arrival_accepted JSON_parse f)"
  then have ne: "arrivals \<noteq> []" by auto
  from a ne have eq: "messageHistory (run JSON_parse (map arrival_event arrivals) (new_ChatRoom None pending))
           = slice_last 100 (messageHistory (new_ChatRoom None pending) @ map (minted JSON_parse) arrivals)"
    by (intro run_arrivals) simp_all
  have "drop (Suc 0) (map (minted JSON_parse) arrivals) = tl (map (minted JSON_parse) arrivals)"
    by (simp add: drop_Suc)
  with a show "let st' = run JSON_parse (map arrival_event arrivals) (new_ChatRoom None pending)
        in messageHistory st' = tl (map (minted JSON_parse) arrivals)
         \<and> length (messageHistory st') = 100"
    unfolding Let_def eq by (simp add: slice_last_def new_ChatRoom_def)
qed

theorem history_capped_witness:
  "length (many_arrivals 101) = 101
   \<and> list_all (arrival_accepted parse_sample) (many_arrivals 101)
   \<and> length (messageHistory (run parse_sample (map arrival_event (many_arrivals 101))
               (new_ChatRoom None None))) = 100
   \<and> messageHistory (run parse_sample (map arrival_event (many_arrivals 101)) (new_ChatRoom None None))
       = tl (map (minted parse_sample) (many_arrivals 101))
   \<and> data_accepted parse_sample hi_frame
   \<and> messageHistory (handleMessage parse_sample bob hi_frame ''id-3'' 3000 room_with_both)
       = [chat_message bob (Some (JString ''hi'')) ''id-3'' 3000]"
proof -
  have h1: "length (many_arrivals 101) = 101"
    by (simp add: many_arrivals_def)
  have h2: "\<forall>f \<in> set (many_arrivals 101). arrival_accepted parse_sample f"
    by (rule many_arrivals_accepted)
  note t = history_capped [where JSON_parse = parse_sample, unfolded Let_def]
  note whole = t [where arrivals = "many_arrivals 101" and pending = None,
      THEN conjunct2, THEN conjunct2, rule_format, OF conjI [OF h1 h2]]
  note single = t [where data = hi_frame and session = bob and uuid = "''id-3''" and now = 3000
      and st = room_with_both, THEN conjunct1, rule_format, OF hi_accepted]
  have one: "messageHistory (handleMessage parse_sample bob hi_frame ''id-3'' 3000 room_with_both)
       = [chat_message bob (Some (JString ''hi'')) ''id-3'' 3000]"
    using single [THEN conjunct1]
    by (simp add: room_with_both_fields data_content_def parse_sample_hi content_of_def)
  show ?thesis
    using h1 h2 whole hi_accepted one by (simp add: list_all_iff)
qed

lemma not_accepted_iff:
  "\<not> data_accepted JSON_parse data \<longleftrightarrow>
     JSON_parse data = None \<or>
     (\<exists>parsed. JSON_parse data = Some parsed \<and>
        (getProperty parsed ''type'' \<noteq> Inr (Some (JString ''message'')) \<or>
         (\<exists>c. getProperty parsed ''content'' = Inr c \<and> \<not> ToBoolean c)))"
proof (cases "JSON_parse data")
  case None
  then show ?thesis by (simp add: data_accepted_def)
next
  case (Some parsed)
  then show ?thesis
    by (cases parsed) (auto simp add: data_accepted_def accepted_def)
qed

text \<open>
  What the guard of \<^verbatim>\<open>handleMessage\<close> drops. A frame is dropped when its text does not parse, when
  reading the type of the parsed value throws or gives anything but the string
  \<^verbatim>\<open>"message"\<close>, and when its content is absent or is \<^verbatim>\<open>null\<close>, \<^verbatim>\<open>false\<close>, zero or the
  empty string. Dropping it changes nothing of the room except that a failure to parse and a
  \<^verbatim>\<open>null\<close> value are logged: no session, history or store change, nothing serialised and
  nothing sent on any socket.
\<close>

lemma rejected_frame_dropped:
  "JSON_parse data = None \<or>
     (\<exists>parsed. JSON_parse data = Some parsed \<and>
        (getProperty parsed ''type'' \<noteq> Inr (Some (JString ''message'')) \<or>
         (\<exists>c. getProperty parsed ''content'' = Inr c \<and> \<not> ToBoolean c)))
   \<longrightarrow>
   (let st' = handleMessage JSON_parse session data uuid now st
    in (st' = st \<or> st' = st\<lparr>trace := trace st @ [ConsoleError ''Error handling message:'']\<rparr>)
     \<and> sessions st' = sessions st
     \<and> messageHistory st' = messageHistory st
     \<and> stored_messages st' = stored_messages st
     \<and> filter is_Stringify (new_effects st st') = []
     \<and> (\<forall>ws. received ws (new_effects st st') = []))"
proof
  assume "JSON_parse data = None \<or>
     (\<exists>parsed. JSON_parse data = Some parsed \<and>
        (getProperty parsed ''type'' \<noteq> Inr (Some (JString ''message'')) \<or>
         (\<exists>c. getProperty parsed ''content'' = Inr c \<and> \<not> ToBoolean c)))"
  then have "\<not> data_accepted JSON_parse data"
    by (simp only: not_accepted_iff)
  from handleMessage_discarded [OF this, of session uuid now st]
  show "let st' = handleMessage JSON_parse session data uuid now st
    in (st' = st \<or> st' = st\<lparr>trace := trace st @ [ConsoleError ''Error handling message:'']\<rparr>)
     \<and> sessions st' = sessions st
     \<and> messageHistory st' = messageHistory st
     \<and> stored_messages st' = stored_messages st
     \<and> filter is_Stringify (new_effects st st') = []
     \<and> (\<forall>ws. received ws (new_effects st st') = [])"
    unfolding Let_def by (auto simp add: new_effects_def)
qed

lemma parse_sample_others:
  "parse_sample empty_frame = Some (JObject [(''type'', JString ''message''), (''content'', JString [])])"
  "parse_sample ping_frame = Some (JObject [(''type'', JString ''ping'')])"
  "parse_sample number_frame = Some (JObject [(''type'', JString ''message''), (''content'', JNumber 42)])"
  "parse_sample ''null'' = Some JNull"
  "parse_sample ''{oops'' = None"
  by (simp_all add: parse_sample_def hi_frame_def number_frame_def as_alice_frame_def
      as_mallory_frame_def empty_frame_def ping_frame_def)

lemma rejected_frame_dropped_samples:
  "parse_sample ''{oops'' = None
   \<and> messageHistory (handleMessage parse_sample bob ''{oops'' ''id-3'' 3000 room_with_both)
       = messageHistory room_with_both
   \<and> (\<forall>ws. received ws (new_effects room_with_both
               (handleMessage parse_sample bob ''{oops'' ''id-3'' 3000 room_with_both)) = [])
   \<and> parse_sample empty_frame
       = Some (JObject [(''type'', JString ''message''), (''content'', JString [])])
   \<and> \<not> ToBoolean (Some (JString []))
   \<and> messageHistory (handleMessage parse_sample bob empty_frame ''id-3'' 3000 room_with_both)
       = messageHistory room_with_both
   \<and> (\<forall>ws. received ws (new_effects room_with_both
               (handleMessage parse_sample bob empty_frame ''id-3'' 3000 room_with_both)) = [])
   \<and> parse_sample ping_frame = Some (JObject [(''type'', JString ''ping'')])
   \<and> messageHistory (handleMessage parse_sample bob ping_frame ''id-3'' 3000 room_with_both)
       = messageHistory room_with_both"
proof -
  note t = rejected_frame_dropped [where JSON_parse = parse_sample and session = bob
      and uuid = "''id-3''" and now = 3000 and st = room_with_both, unfolded Let_def, rule_format]
  have a: "parse_sample ''{oops'' = None"
    by (rule parse_sample_others)
  note ta = t [of "''{oops''", OF disjI1 [OF a]]
  have b: "\<exists>parsed. parse_sample empty_frame = Some parsed \<and>
        (getProperty parsed ''type'' \<noteq> Inr (Some (JString ''message'')) \<or>
         (\<exists>c. getProperty parsed ''content'' = Inr c \<and> \<not> ToBoolean c))"
    by (simp add: parse_sample_others)
  note tb = t [of empty_frame, OF disjI2 [OF b]]
  have c: "\<exists>parsed. parse_sample ping_frame = Some parsed \<and>
        (getProperty parsed ''type'' \<noteq> Inr (Some (JString ''message'')) \<or>
         (\<exists>c. getProperty parsed ''content'' = Inr c \<and> \<not> ToBoolean c))"
    by (simp add: parse_sample_others)
  note tc = t [of ping_frame, OF disjI2 [OF c]]
  show ?thesis
    using ta tb tc by (simp add: parse_sample_others)
qed

text \<open>
  Claim C4 at this input. Bob sends a frame of type \<^verbatim>\<open>"message"\<close> whose content is the number
  42. The frame is not of the one shape the room accepts, an object with type
  \<^verbatim>\<open>"message"\<close> and a string content, so the claim has it dropped. The guard tests the
  content for truth only: the room mints a message whose content is the number, in the
  field \<^verbatim>\<open>ChatMessage\<close> declares a string, appends it to the history and sends it to Alice and
  to Bob.
\<close>

theorem number_content_taken_in:
  "parse_sample number_frame
     = Some (JObject [(''type'', JString ''message''), (''content'', JNumber 42)])
   \<and> \<not> well_formed (JObject [(''type'', JString ''message''), (''content'', JNumber 42)])
   \<and> messageHistory room_with_both = []
   \<and> messageHistory (handleMessage parse_sample bob number_frame ''id-3'' 3000 room_with_both)
       = [chat_message bob (Some (JNumber 42)) ''id-3'' 3000]
   \<and> stored_messages (handleMessage parse_sample bob number_frame ''id-3'' 3000 room_with_both)
       = Some [chat_message bob (Some (JNumber 42)) ''id-3'' 3000]
   \<and> received (webSocket alice) (new_effects room_with_both
        (handleMessage parse_sample bob number_frame ''id-3'' 3000 room_with_both))
       = [PMessage (chat_message bob (Some (JNumber 42)) ''id-3'' 3000)]
   \<and> received (webSocket bob) (new_effects room_with_both
        (handleMessage parse_sample bob number_frame ''id-3'' 3000 room_with_both))
       = [PMessage (chat_message bob (Some (JNumber 42)) ''id-3'' 3000)]"
proof -
  have acc: "data_accepted parse_sample number_frame"
    by (simp add: data_accepted_def parse_sample_others accepted_def)
  have c: "data_content parse_sample number_frame = Some (JNumber 42)"
    by (simp add: data_content_def parse_sample_others content_of_def)
  show ?thesis
    unfolding handleMessage_accepted [OF acc]
    by (simp add: parse_sample_others well_formed_def room_with_both_fields c slice_last_def
        new_effects_def received_append attempt_def alice_def bob_def)
qed

lemma last_slice_last_snoc: "0 < n \<Longrightarrow> last (slice_last n (xs @ [x])) = x"
  by (simp add: slice_last_def last_drop)

lemma handleMessage_reads_type_and_content:
  assumes "JSON_parse data = Some (JObject members)"
    and "JSON_parse data' = Some (JObject members')"
    and "map_of members ''type'' = map_of members' ''type''"
    and "map_of members ''content'' = map_of members' ''content''"
  shows "handleMessage JSON_parse session data uuid now st
           = handleMessage JSON_parse session data' uuid now st"
  using assms by (simp add: handleMessage_def)

text \<open>
  Claim C7. The message minted from a frame the room takes in carries the user id and the
  user name of the session the frame arrived on; it is that message which ends the history
  and is broadcast. Two frames whose parsed objects agree on every member but
  \<^verbatim>\<open>userId\<close> and \<^verbatim>\<open>username\<close> are handled alike: the room after the one is the room after the
  other, whatever identity either frame claims.
\<close>

theorem identity_from_session:
  "(data_accepted JSON_parse data \<longrightarrow>
      (let st' = handleMessage JSON_parse session data uuid now st;
           message = minted JSON_parse (session, data, uuid, now)
       in m_userId message = userId session
        \<and> m_username message = username session
        \<and> last (messageHistory st') = message
        \<and> new_effects st st' =
             StoragePut (messageHistory st') # Stringify (PMessage message)
             # map (attempt (ws_open st) (PMessage message)) (sessions st)))
   \<and> (JSON_parse data = Some (JObject members) \<and> JSON_parse data' = Some (JObject members')
        \<and> (\<forall>k. k \<noteq> ''userId'' \<and> k \<noteq> ''username'' \<longrightarrow> map_of members k = map_of members' k)
      \<longrightarrow> handleMessage JSON_parse session data uuid now st
            = handleMessage JSON_parse session data' uuid now st)"
proof (intro conjI impI)
  assume acc: "data_accepted JSON_parse data"
  show "let st' = handleMessage JSON_parse session data uuid now st;
            message = minted JSON_parse (session, data, uuid, now)
        in m_userId message = userId session
         \<and> m_username message = username session
         \<and> last (messageHistory st') = message
         \<and> new_effects st st' =
              StoragePut (messageHistory st') # Stringify (PMessage message)
              # map (attempt (ws_open st) (PMessage message)) (sessions st)"
    unfolding Let_def handleMessage_accepted [OF acc]
    by (simp add: last_slice_last_snoc new_effects_def chat_message_def)
next
  assume a: "JSON_parse data = Some (JObject members) \<and> JSON_parse data' = Some (JObject members')
        \<and> (\<forall>k. k \<noteq> ''userId'' \<and> k \<noteq> ''username'' \<longrightarrow> map_of members k = map_of members' k)"
  then have ty: "map_of members ''type'' = map_of members' ''type''"
    and co: "map_of members ''content'' = map_of members' ''content''"
    by simp_all
  from a have p: "JSON_parse data = Some (JObject members)"
    and p': "JSON_parse data' = Some (JObject members')"
    by simp_all
  show "handleMessage JSON_parse session data uuid now st
            = handleMessage JSON_parse session data' uuid now st"
    by (rule handleMessage_reads_type_and_content [OF p p' ty co])
qed

lemma parse_sample_claims:
  "parse_sample as_alice_frame
     = Some (JObject [(''type'', JString ''message''), (''content'', JString ''hi''),
                      (''userId'', JString ''u1''), (''username'', JString ''Alice'')])"
  "parse_sample as_mallory_frame
     = Some (JObject [(''type'', JString ''message''), (''content'', JString ''hi''),
                      (''userId'', JString ''u9''), (''username'', JString ''Mallory'')])"
  by (simp_all add: parse_sample_def hi_frame_def number_frame_def as_alice_frame_def
      as_mallory_frame_def)

theorem identity_from_session_witness:
  "data_accepted parse_sample as_alice_frame
   \<and> m_userId (last (messageHistory
        (handleMessage parse_sample bob as_alice_frame ''id-3'' 3000 room_with_both))) = ''u2''
   \<and> m_username (last (messageHistory
        (handleMessage parse_sample bob as_alice_frame ''id-3'' 3000 room_with_both))) = ''Bob''
   \<and> as_alice_frame \<noteq> as_mallory_frame
   \<and> handleMessage parse_sample bob as_alice_frame ''id-3'' 3000 room_with_both
       = handleMessage parse_sample bob as_mallory_frame ''id-3'' 3000 room_with_both"
proof -
  have h1: "data_accepted parse_sample as_alice_frame"
    by (simp add: data_accepted_def parse_sample_claims accepted_def)
  have h2: "\<forall>k. k \<noteq> ''userId'' \<and> k \<noteq> ''username'' \<longrightarrow>
      map_of [(''type'', JString ''message''), (''content'', JString ''hi''),
              (''userId'', JString ''u1''), (''username'', JString ''Alice'')] k
      = map_of [(''type'', JString ''message''), (''content'', JString ''hi''),
                (''userId'', JString ''u9''), (''username'', JString ''Mallory'')] k"
    by simp
  note t = identity_from_session [where JSON_parse = parse_sample and session = bob
      and uuid = "''id-3''" and now = 3000 and st = room_with_both and data = as_alice_frame,
      unfolded Let_def]
  note own = t [THEN conjunct1, rule_format, OF h1]
  note same = t [where data' = as_mallory_frame, THEN conjunct2, rule_format,
      OF conjI [OF parse_sample_claims(1) conjI [OF parse_sample_claims(2) h2]]]
  have differ: "as_alice_frame \<noteq> as_mallory_frame"
    by (simp add: as_alice_frame_def as_mallory_frame_def)
  show ?thesis
    using h1 own same differ by (simp add: bob_def)
qed

section \<open>Leaving\<close>

lemma handleClose_eq:
  "handleClose session uuid now st =
     st\<lparr>sessions := Set_delete session (sessions st),
        ws_open := (ws_open st)(webSocket session := False),
        trace := trace st @
          (if quit session \<noteq> Some True
           then Stringify (PMessage (leave_message session uuid now))
                # map (attempt (ws_open st) (PMessage (leave_message session uuid now)))
                      (Set_delete session (sessions st))
           else [])
          @ (if ws_open st (webSocket session) then [WsClose (webSocket session)] else [])\<rparr>"
proof -
  have idem: "(ws_open st)(webSocket session := False) = ws_open st"
    if "\<not> ws_open st (webSocket session)"
    using that by (simp add: fun_upd_idem_iff)
  show ?thesis
    by (simp add: handleClose_def Let_def broadcast_eq webSocket_close_def emit_def
        leave_message_def idem)
qed

lemma Set_delete_twice: "Set_delete x (Set_delete x xs) = Set_delete x xs"
  by (simp add: Set_delete_def)

lemma Set_delete_absent: "x \<notin> set xs \<Longrightarrow> Set_delete x xs = xs"
  by (induction xs) (auto simp add: Set_delete_def)

text \<open>
  The second teardown of a session finds it gone from the live set and removes nothing,
  and it announces the leave again to the very sessions the first one announced it to.
\<close>

lemma second_close_announces_again:
  assumes "quit session \<noteq> Some True"
  shows "sessions (handleClose session uuid' now' (handleClose session uuid now st))
           = sessions (handleClose session uuid now st)"
    and "new_effects (handleClose session uuid now st)
           (handleClose session uuid' now' (handleClose session uuid now st))
         = Stringify (PMessage (leave_message session uuid' now'))
           # map (attempt ((ws_open st)(webSocket session := False))
                   (PMessage (leave_message session uuid' now')))
                 (Set_delete session (sessions st))"
  using assms by (simp_all add: handleClose_eq Set_delete_twice new_effects_def)

text \<open>The session that is torn down is not among those the leave is sent to.\<close>

lemma leave_not_sent_to_leaver:
  assumes "room_ok st" and "session \<in> set (sessions st)"
  shows "received (webSocket session) (new_effects st (handleClose session uuid now st)) = []"
proof -
  have "webSocket session \<notin> webSocket ` set (Set_delete session (sessions st))"
  proof
    assume "webSocket session \<in> webSocket ` set (Set_delete session (sessions st))"
    then obtain s where s: "s \<in> set (sessions st)" "s \<noteq> session" "webSocket s = webSocket session"
      by (auto simp add: Set_delete_def)
    from assms s have "s = session"
      by (auto simp add: room_ok_def distinct_map inj_on_def)
    with s show False by simp
  qed
  then have "received (webSocket session)
      (map (attempt (ws_open st) (PMessage (leave_message session uuid now)))
           (Set_delete session (sessions st))) = []"
    by (rule received_attempts_other)
  then show ?thesis
    by (simp add: handleClose_eq new_effects_def received_append)
qed

lemma room_with_alice_trace:
  "trace room_with_alice =
     [Stringify (PHistory []), WsSend 1 (PHistory []),
      Stringify (PMessage (join_message ''u1'' ''Alice'' ''id-1'' 1000)),
      WsSend 1 (PMessage (join_message ''u1'' ''Alice'' ''id-1'' 1000)),
      Stringify (PPresence [(''u1'', ''Alice'')]), WsSend 1 (PPresence [(''u1'', ''Alice'')])]"
proof -
  have v: "valid_request (websocket_request ''u1'' ''Alice'') ''u1'' ''Alice''"
    by (simp add: valid_websocket_request)
  show ?thesis
    unfolding room_with_alice_def fetch_admits [OF room_ok_new v]
    by (simp add: new_ChatRoom_def attempt_def roster_def)
qed

lemma room_with_both_trace:
  "trace room_with_both = trace room_with_alice @
     [Stringify (PHistory []), WsSend 3 (PHistory []),
      Stringify (PMessage (join_message ''u2'' ''Bob'' ''id-2'' 2000)),
      WsSend 1 (PMessage (join_message ''u2'' ''Bob'' ''id-2'' 2000)),
      WsSend 3 (PMessage (join_message ''u2'' ''Bob'' ''id-2'' 2000)),
      Stringify (PPresence [(''u1'', ''Alice''), (''u2'', ''Bob'')]),
      WsSend 3 (PPresence [(''u1'', ''Alice''), (''u2'', ''Bob'')])]"
proof -
  have v: "valid_request (websocket_request ''u2'' ''Bob'') ''u2'' ''Bob''"
    by (simp add: valid_websocket_request)
  show ?thesis
    unfolding room_with_both_def fetch_admits [OF room_ok_with_alice v]
    by (simp add: room_with_alice_fields attempt_def roster_def alice_def)
qed

lemma closed_twice_eq:
  "closed_twice = handleClose alice ''id-4'' 3001 (handleClose alice ''id-3'' 3000 room_with_both)"
  by (simp add: closed_twice_def run_def room_with_both_def room_with_alice_def)

text \<open>
  Claim C3 at this input. After the two teardowns of Alice's session the live set is Bob
  alone, as it was after the first. Bob's socket has received its history, its own join and
  the roster, and then two leave messages for Alice, one for each teardown, where the claim
  allows one.
\<close>

theorem leave_announced_twice:
  "sessions (handleClose alice ''id-3'' 3000 room_with_both) = [bob]
   \<and> sessions closed_twice = [bob]
   \<and> received (webSocket bob) (trace closed_twice)
       = [PHistory [],
          PMessage (join_message ''u2'' ''Bob'' ''id-2'' 2000),
          PPresence [(''u1'', ''Alice''), (''u2'', ''Bob'')],
          PMessage (leave_message alice ''id-3'' 3000),
          PMessage (leave_message alice ''id-4'' 3001)]"
proof -
  have q: "quit alice \<noteq> Some True" and ne: "alice \<noteq> bob" and w: "webSocket bob = 3"
    and w': "webSocket alice = 1"
    by (simp_all add: alice_def bob_def)
  have rest: "Set_delete alice [alice, bob] = [bob]"
    using ne by (simp add: Set_delete_def)
  have rest': "Set_delete alice [bob] = [bob]"
    using ne by (simp add: Set_delete_def)
  show ?thesis
    unfolding closed_twice_eq handleClose_eq
    using q
    by (simp add: room_with_both_fields room_with_both_trace room_with_alice_trace rest rest'
        received_append attempt_def w w')
qed

section \<open>The messages the room creates\<close>

lemma messages_created_append:
  "messages_created (es @ fs) = messages_created es @ messages_created fs"
  by (induction es rule: messages_created.induct) simp_all

lemma messages_created_attempts:
  "set (messages_created (map (attempt opn (PMessage m)) ss)) \<subseteq> {m}"
  by (induction ss) (auto simp add: attempt_def)

lemma step_summaryI:
  assumes "trace st' = trace st @ E"
    and "\<forall>m \<in> set (messages_created E). content_iff_message m"
    and "\<forall>m \<in> set (messageHistory st').
           m \<in> set (messageHistory st) \<or> (m_type m = Message \<and> m_content m \<noteq> None)"
    and "stored_messages st' = stored_messages st \<or> stored_messages st' = Some (messageHistory st')"
  shows "step_summary st st'"
  using assms by (simp add: step_summary_def new_effects_def)

lemma step_summary_refl: "step_summary st st"
  by (rule step_summaryI [where E = "[]"]) simp_all

lemma content_iff_join: "content_iff_message (join_message uid uname uuid now)"
  by (simp add: content_iff_message_def join_message_def)

lemma content_iff_leave: "content_iff_message (leave_message session uuid now)"
  by (simp add: content_iff_message_def leave_message_def)

lemma minted_has_content:
  assumes "data_accepted JSON_parse data"
  shows "m_content (minted JSON_parse (session, data, uuid, now)) \<noteq> None"
    and "m_type (minted JSON_parse (session, data, uuid, now)) = Message"
proof -
  from assms obtain parsed where p: "JSON_parse data = Some parsed" and a: "accepted parsed"
    by (auto simp add: data_accepted_def split: option.splits)
  from accepted_props(3) [OF a] have "content_of parsed \<noteq> None"
    by (cases "content_of parsed") simp_all
  with p show "m_content (minted JSON_parse (session, data, uuid, now)) \<noteq> None"
    by (simp add: chat_message_def data_content_def)
  show "m_type (minted JSON_parse (session, data, uuid, now)) = Message"
    by (simp add: chat_message_def)
qed

lemma set_slice_last: "set (slice_last n xs) \<subseteq> set xs"
  by (simp add: slice_last_def set_drop_subset)

lemma step_summary_fetch: "step_summary st (snd (fetch request uuid now st))"
proof (cases "missing_identity request \<or> no_upgrade request")
  case True
  then have "snd (fetch request uuid now st) = st"
    by (auto simp add: fetch_def Let_def missing_identity_def no_upgrade_def)
  then show ?thesis by (simp add: step_summary_refl)
next
  case False
  define uid where "uid = (case map_of (searchParams request) ''userId'' of Some s \<Rightarrow> s | None \<Rightarrow> [])"
  define uname where "uname = (case map_of (searchParams request) ''username'' of Some s \<Rightarrow> s | None \<Rightarrow> [])"
  define join where "join = join_message uid uname uuid now"
  define new where "new = \<lparr> webSocket = next_ws st + 1, userId = uid, username = uname, quit = None \<rparr>"
  define ss where "ss = Set_add new (sessions st)"
  define opn where "opn = (ws_open st)(next_ws st + 1 := True)"
  define E where "E = [Stringify (PHistory (messageHistory st)),
                       WsSend (next_ws st + 1) (PHistory (messageHistory st)),
                       Stringify (PMessage join)]
                      @ map (attempt opn (PMessage join)) ss
                      @ [Stringify (PPresence (roster ss)), WsSend (next_ws st + 1) (PPresence (roster ss))]"
  from False have eq: "snd (fetch request uuid now st)
      = st\<lparr>sessions := ss, ws_open := opn, next_ws := next_ws st + 2, trace := trace st @ E\<rparr>"
    by (simp add: fetch_def missing_identity_def no_upgrade_def Let_def sendMessageHistory_eq
        broadcast_eq sendPresence_eq join_message_def E_def ss_def new_def opn_def join_def
        uid_def uname_def)
  have "set (messages_created E) \<subseteq> {join}"
    using messages_created_attempts [of opn join ss]
    by (auto simp add: E_def messages_created_append)
  then have created: "\<forall>m \<in> set (messages_created E). content_iff_message m"
    using content_iff_join [of uid uname uuid now] by (auto simp add: join_def)
  show ?thesis
    unfolding eq by (rule step_summaryI [where E = E]) (simp_all add: created)
qed

lemma step_summary_handleMessage:
  "step_summary st (handleMessage JSON_parse session data uuid now st)"
proof (cases "data_accepted JSON_parse data")
  case True
  define m where "m = minted JSON_parse (session, data, uuid, now)"
  define E where "E = StoragePut (slice_last 100 (messageHistory st @ [m])) # Stringify (PMessage m)
                      # map (attempt (ws_open st) (PMessage m)) (sessions st)"
  have "set (messages_created E) \<subseteq> {m}"
    using messages_created_attempts [of "ws_open st" m "sessions st"] by (auto simp add: E_def)
  moreover have cm: "m_type m = Message \<and> m_content m \<noteq> None"
    using minted_has_content [OF True] by (simp add: m_def)
  ultimately have created: "\<forall>m \<in> set (messages_created E). content_iff_message m"
    by (auto simp add: content_iff_message_def)
  have "x \<in> set (messageHistory st) \<or> (m_type x = Message \<and> m_content x \<noteq> None)"
    if "x \<in> set (slice_last 100 (messageHistory st @ [m]))" for x
  proof -
    from that set_slice_last [of 100 "messageHistory st @ [m]"]
    have "x \<in> set (messageHistory st @ [m])" by blast
    with cm show ?thesis by auto
  qed
  then have hist: "\<forall>x \<in> set (slice_last 100 (messageHistory st @ [m])).
      x \<in> set (messageHistory st) \<or> (m_type x = Message \<and> m_content x \<noteq> None)"
    by blast
  show ?thesis
    unfolding handleMessage_accepted [OF True] m_def [symmetric]
    by (rule step_summaryI [where E = E]) (use created hist in \<open>simp_all add: E_def\<close>)
next
  case False
  from handleMessage_discarded [OF False, of session uuid now st] show ?thesis
  proof
    assume "handleMessage JSON_parse session data uuid now st = st"
    then show ?thesis by (simp add: step_summary_refl)
  next
    assume "handleMessage JSON_parse session data uuid now st
              = st\<lparr>trace := trace st @ [ConsoleError ''Error handling message:'']\<rparr>"
    then show ?thesis
      by (intro step_summaryI [where E = "[ConsoleError ''Error handling message:'']"]) simp_all
  qed
qed

lemma step_summary_handleClose: "step_summary st (handleClose session uuid now st)"
proof -
  define leave where "leave = leave_message session uuid now"
  define E where "E = (if quit session \<noteq> Some True
           then Stringify (PMessage leave)
                # map (attempt (ws_open st) (PMessage leave)) (Set_delete session (sessions st))
           else [])
          @ (if ws_open st (webSocket session) then [WsClose (webSocket session)] else [])"
  have "set (messages_created E) \<subseteq> {leave}"
    using messages_created_attempts [of "ws_open st" leave "Set_delete session (sessions st)"]
    by (auto simp add: E_def messages_created_append)
  then have created: "\<forall>m \<in> set (messages_created E). content_iff_message m"
    using content_iff_leave [of session uuid now] by (auto simp add: leave_def)
  show ?thesis
    unfolding handleClose_eq leave_def [symmetric]
    by (rule step_summaryI [where E = E]) (simp_all add: created E_def)
qed

lemma step_summary_alarm:
  "step_summary st (snd (alarm now put_fulfilled now' setAlarm_fulfilled st))"
proof -
  define kept where "kept = filter (\<lambda>msg. now - 24 * 60 * 60 * 1000 < m_timestamp msg) (messageHistory st)"
  define E where "E = (if put_fulfilled then [StoragePut kept] else [])
                      @ (if put_fulfilled \<and> setAlarm_fulfilled then [SetAlarm (now' + 60 * 60 * 1000)] else [])"
  have "messages_created E = []"
    by (simp add: E_def)
  then show ?thesis
    by (intro step_summaryI [where E = E])
       (auto simp add: alarm_def Let_def storage_put_def storage_setAlarm_def emit_def E_def kept_def)
qed

lemma step_summary_dispatch: "step_summary st (dispatch JSON_parse e st)"
  by (cases e)
     (simp_all add: step_summary_fetch step_summary_handleMessage step_summary_handleClose
        step_summary_alarm)

lemma hello_minted: "minted parse_sample (bob, hi_frame, ''id-3'', 3000) = hello"
  by (simp add: hello_def data_content_def parse_sample_hi content_of_def)

lemma said_hi:
  "handleMessage parse_sample bob hi_frame ''id-3'' 3000 room_with_both =
     room_with_both\<lparr>messageHistory := [hello], stored_messages := Some [hello],
       trace := trace room_with_both @
         [StoragePut [hello], Stringify (PMessage hello), WsSend 1 (PMessage hello),
          WsSend 3 (PMessage hello)]\<rparr>"
  unfolding handleMessage_accepted [OF hi_accepted] hello_minted
  by (simp add: room_with_both_fields slice_last_def attempt_def alice_def bob_def)

text \<open>
  Claim C9. Whatever the event, every chat message the room serialises or sends while it
  handles it, and every entry the history did not hold before, has a content exactly when
  its type is message. The join and the leave message have none; the message minted from a
  frame the room takes in has one.
\<close>

theorem content_iff_kind:
  "(let st' = dispatch JSON_parse e st
    in (\<forall>m \<in> set (messages_created (new_effects st st')).
          m_content m \<noteq> None \<longleftrightarrow> m_type m = Message)
     \<and> (\<forall>m \<in> set (messageHistory st'). m \<notin> set (messageHistory st)
          \<longrightarrow> (m_content m \<noteq> None \<longleftrightarrow> m_type m = Message)))
   \<and> m_type (join_message uid uname uuid now) = Join
   \<and> m_content (join_message uid uname uuid now) = None
   \<and> m_type (leave_message session uuid now) = Leave
   \<and> m_content (leave_message session uuid now) = None
   \<and> (data_accepted JSON_parse data \<longrightarrow>
        m_type (minted JSON_parse (session, data, uuid, now)) = Message
        \<and> m_content (minted JSON_parse (session, data, uuid, now)) \<noteq> None)"
proof -
  note s = step_summary_dispatch [of st JSON_parse e, unfolded step_summary_def content_iff_message_def]
  have a: "\<forall>m \<in> set (messages_created (new_effects st (dispatch JSON_parse e st))).
          m_content m \<noteq> None \<longleftrightarrow> m_type m = Message"
    using s by blast
  have b: "\<forall>m \<in> set (messageHistory (dispatch JSON_parse e st)). m \<notin> set (messageHistory st)
          \<longrightarrow> (m_content m \<noteq> None \<longleftrightarrow> m_type m = Message)"
    using s by blast
  have c: "m_type (join_message uid uname uuid now) = Join"
    "m_content (join_message uid uname uuid now) = None"
    "m_type (leave_message session uuid now) = Leave"
    "m_content (leave_message session uuid now) = None"
    by (simp_all add: join_message_def leave_message_def)
  show ?thesis
    unfolding Let_def using a b c minted_has_content [of JSON_parse data session uuid now]
    by blast
qed

theorem content_iff_kind_witness:
  "messages_created (new_effects room_with_both
      (dispatch parse_sample (OnMessage bob hi_frame ''id-3'' 3000) room_with_both))
     = [hello, hello, hello]
   \<and> messageHistory (dispatch parse_sample (OnMessage bob hi_frame ''id-3'' 3000) room_with_both)
       = [hello]
   \<and> hello \<notin> set (messageHistory room_with_both)
   \<and> m_content hello = Some (JString ''hi'')
   \<and> (m_content hello \<noteq> None \<longleftrightarrow> m_type hello = Message)
   \<and> messages_created (new_effects room_with_both
        (dispatch parse_sample (OnClose alice ''id-4'' 4000) room_with_both))
       = [leave_message alice ''id-4'' 4000, leave_message alice ''id-4'' 4000]
   \<and> (m_content (leave_message alice ''id-4'' 4000) \<noteq> None
        \<longleftrightarrow> m_type (leave_message alice ''id-4'' 4000) = Message)"
proof -
  have said: "messages_created (new_effects room_with_both
      (dispatch parse_sample (OnMessage bob hi_frame ''id-3'' 3000) room_with_both))
     = [hello, hello, hello]"
    and hist: "messageHistory (dispatch parse_sample (OnMessage bob hi_frame ''id-3'' 3000) room_with_both)
       = [hello]"
    by (simp_all add: said_hi new_effects_def)
  have fresh: "hello \<notin> set (messageHistory room_with_both)"
    by (simp add: room_with_both_fields)
  have left: "messages_created (new_effects room_with_both
        (dispatch parse_sample (OnClose alice ''id-4'' 4000) room_with_both))
       = [leave_message alice ''id-4'' 4000, leave_message alice ''id-4'' 4000]"
    by (simp add: handleClose_eq new_effects_def room_with_both_fields Set_delete_def
        attempt_def alice_def bob_def messages_created_append)
  note t1 = content_iff_kind [where JSON_parse = parse_sample and st = room_with_both
      and e = "OnMessage bob hi_frame ''id-3'' 3000", unfolded Let_def, THEN conjunct1,
      THEN conjunct1, rule_format, of hello]
  note t2 = content_iff_kind [where JSON_parse = parse_sample and st = room_with_both
      and e = "OnClose alice ''id-4'' 4000", unfolded Let_def, THEN conjunct1,
      THEN conjunct1, rule_format, of "leave_message alice ''id-4'' 4000"]
  have c: "m_content hello = Some (JString ''hi'')"
    by (simp add: hello_def chat_message_def)
  from t1 said have k1: "m_content hello \<noteq> None \<longleftrightarrow> m_type hello = Message"
    by simp
  from t2 left have k2: "m_content (leave_message alice ''id-4'' 4000) \<noteq> None
        \<longleftrightarrow> m_type (leave_message alice ''id-4'' 4000) = Message"
    by simp
  show ?thesis
    using said hist fresh c k1 k2 left by blast
qed

section \<open>What the history holds\<close>

lemma fetch_keeps_history:
  "messageHistory (snd (fetch request uuid now st)) = messageHistory st"
  "stored_messages (snd (fetch request uuid now st)) = stored_messages st"
  by (simp_all add: fetch_def Let_def sendMessageHistory_eq broadcast_eq sendPresence_eq)

lemma handleClose_keeps_history:
  "messageHistory (handleClose session uuid now st) = messageHistory st"
  "stored_messages (handleClose session uuid now st) = stored_messages st"
  by (simp_all add: handleClose_eq)

lemma dispatch_only_messages:
  assumes "only_messages (messageHistory st)" and "store_only_messages st"
  shows "only_messages (messageHistory (dispatch JSON_parse e st))
         \<and> store_only_messages (dispatch JSON_parse e st)"
proof -
  note s = step_summary_dispatch [of st JSON_parse e, unfolded step_summary_def]
  from s have h: "\<forall>m \<in> set (messageHistory (dispatch JSON_parse e st)).
      m \<in> set (messageHistory st) \<or> m_type m = Message"
    by blast
  with assms(1) have 1: "only_messages (messageHistory (dispatch JSON_parse e st))"
    by (auto simp add: only_messages_def)
  from s have "stored_messages (dispatch JSON_parse e st) = stored_messages st
      \<or> stored_messages (dispatch JSON_parse e st) = Some (messageHistory (dispatch JSON_parse e st))"
    by blast
  with assms(2) 1 have "store_only_messages (dispatch JSON_parse e st)"
    by (auto simp add: store_only_messages_def)
  with 1 show ?thesis ..
qed

lemma run_only_messages:
  "only_messages (messageHistory st) \<Longrightarrow> store_only_messages st \<Longrightarrow>
   only_messages (messageHistory (run JSON_parse events st))
   \<and> store_only_messages (run JSON_parse events st)"
proof (induction events arbitrary: st)
  case Nil
  then show ?case by (simp add: run_Nil)
next
  case (Cons e events)
  from dispatch_only_messages [OF Cons.prems, of JSON_parse e]
  show ?case unfolding run_Cons by (intro Cons.IH) simp_all
qed

text \<open>
  Claim C10. An event leaves in the history only entries that were there and entries of
  type message, and leaves in the store what was there or the new history; \<^verbatim>\<open>fetch\<close> and the
  teardown, which create the join and the leave message, do not touch the history at all.
  So a history and a store that hold only messages do so after any events, and a room that
  starts from an empty store, or from a store of messages, holds only messages for ever.
\<close>

theorem history_holds_only_messages:
  "(let st' = dispatch JSON_parse e st
    in (\<forall>m \<in> set (messageHistory st'). m \<in> set (messageHistory st) \<or> m_type m = Message)
     \<and> (stored_messages st' = stored_messages st \<or> stored_messages st' = Some (messageHistory st')))
   \<and> messageHistory (snd (fetch request uuid now st)) = messageHistory st
   \<and> messageHistory (handleClose session uuid now st) = messageHistory st
   \<and> (only_messages (messageHistory st) \<and> store_only_messages st \<longrightarrow>
        only_messages (messageHistory (run JSON_parse events st))
        \<and> store_only_messages (run JSON_parse events st))
   \<and> (only_messages initial \<longrightarrow>
        only_messages (messageHistory (run JSON_parse events (new_ChatRoom (Some initial) pending)))
        \<and> store_only_messages (run JSON_parse events (new_ChatRoom (Some initial) pending)))
   \<and> only_messages (messageHistory (run JSON_parse events (new_ChatRoom None pending)))
   \<and> store_only_messages (run JSON_parse events (new_ChatRoom None pending))"
proof -
  note s = step_summary_dispatch [of st JSON_parse e, unfolded step_summary_def]
  have a: "\<forall>m \<in> set (messageHistory (dispatch JSON_parse e st)).
      m \<in> set (messageHistory st) \<or> m_type m = Message"
    using s by blast
  have b: "stored_messages (dispatch JSON_parse e st) = stored_messages st
      \<or> stored_messages (dispatch JSON_parse e st) = Some (messageHistory (dispatch JSON_parse e st))"
    using s by blast
  have c: "only_messages (messageHistory (run JSON_parse events (new_ChatRoom (Some initial) pending)))
        \<and> store_only_messages (run JSON_parse events (new_ChatRoom (Some initial) pending))"
    if "only_messages initial"
    using that by (intro run_only_messages) (simp_all add: new_ChatRoom_def store_only_messages_def)
  have d: "only_messages (messageHistory (run JSON_parse events (new_ChatRoom None pending)))
        \<and> store_only_messages (run JSON_parse events (new_ChatRoom None pending))"
    by (intro run_only_messages)
       (simp_all add: new_ChatRoom_def store_only_messages_def only_messages_def)
  show ?thesis
    unfolding Let_def
    using a b c d fetch_keeps_history(1) [of request uuid now st]
      handleClose_keeps_history(1) [of session uuid now st]
      run_only_messages [of st JSON_parse events]
    by blast
qed

lemma short_chat_run:
  "run parse_sample short_chat (new_ChatRoom None None)
     = handleClose alice ''id-4'' 4000
         (handleMessage parse_sample bob hi_frame ''id-3'' 3000 room_with_both)"
  by (simp add: short_chat_def run_def room_with_both_def room_with_alice_def)

theorem history_holds_only_messages_witness:
  "messageHistory (run parse_sample short_chat (new_ChatRoom None None)) = [hello]
   \<and> stored_messages (run parse_sample short_chat (new_ChatRoom None None)) = Some [hello]
   \<and> m_type hello = Message
   \<and> only_messages [stale, recent]
   \<and> only_messages (messageHistory
        (run parse_sample short_chat (new_ChatRoom (Some [stale, recent]) None)))
   \<and> messages_created (trace (run parse_sample short_chat (new_ChatRoom None None)))
       = [join_message ''u1'' ''Alice'' ''id-1'' 1000, join_message ''u1'' ''Alice'' ''id-1'' 1000,
          join_message ''u2'' ''Bob'' ''id-2'' 2000, join_message ''u2'' ''Bob'' ''id-2'' 2000,
          join_message ''u2'' ''Bob'' ''id-2'' 2000,
          hello, hello, hello,
          leave_message alice ''id-4'' 4000, leave_message alice ''id-4'' 4000]"
proof -
  have hist: "messageHistory (run parse_sample short_chat (new_ChatRoom None None)) = [hello]"
    and stored: "stored_messages (run parse_sample short_chat (new_ChatRoom None None)) = Some [hello]"
    by (simp_all add: short_chat_run handleClose_keeps_history said_hi)
  have ini: "only_messages [stale, recent]"
    by (simp add: only_messages_def stale_def recent_def chat_message_def)
  note t = history_holds_only_messages [where JSON_parse = parse_sample and events = short_chat]
  note empty = t [where pending = None, THEN conjunct2, THEN conjunct2, THEN conjunct2,
      THEN conjunct2, THEN conjunct2, THEN conjunct1]
  note restored = t [where pending = None and initial = "[stale, recent]", THEN conjunct2,
      THEN conjunct2, THEN conjunct2, THEN conjunct2, THEN conjunct1, rule_format, OF ini,
      THEN conjunct1]
  from empty hist have kind: "m_type hello = Message"
    by (simp add: only_messages_def)
  have created: "messages_created (trace (run parse_sample short_chat (new_ChatRoom None None)))
       = [join_message ''u1'' ''Alice'' ''id-1'' 1000, join_message ''u1'' ''Alice'' ''id-1'' 1000,
          join_message ''u2'' ''Bob'' ''id-2'' 2000, join_message ''u2'' ''Bob'' ''id-2'' 2000,
          join_message ''u2'' ''Bob'' ''id-2'' 2000,
          hello, hello, hello,
          leave_message alice ''id-4'' 4000, leave_message alice ''id-4'' 4000]"
    unfolding short_chat_run handleClose_eq said_hi
    by (simp add: room_with_both_fields room_with_both_trace room_with_alice_trace
        messages_created_append Set_delete_def attempt_def alice_def bob_def)
  show ?thesis
    using hist stored kind ini restored created by blast
qed

section \<open>The rooms the events build\<close>

lemma room_ok_same_sessions:
  "room_ok st \<Longrightarrow> sessions st' = sessions st \<Longrightarrow> next_ws st' = next_ws st \<Longrightarrow> room_ok st'"
  by (simp add: room_ok_def)

lemma room_ok_fetch:
  assumes "room_ok st"
  shows "room_ok (snd (fetch request uuid now st))"
proof (cases "missing_identity request \<or> no_upgrade request")
  case True
  then have "snd (fetch request uuid now st) = st"
    by (auto simp add: fetch_def Let_def missing_identity_def no_upgrade_def)
  with assms show ?thesis by simp
next
  case False
  then obtain uid uname where valid: "valid_request request uid uname"
    by (cases "map_of (searchParams request) ''userId''";
        cases "map_of (searchParams request) ''username''")
       (auto simp add: missing_identity_def no_upgrade_def valid_request_def)
  have old: "webSocket s < next_ws st" if "s \<in> set (sessions st)" for s
    using assms that by (simp add: room_ok_def)
  have "next_ws st + 1 \<notin> webSocket ` set (sessions st)"
  proof
    assume "next_ws st + 1 \<in> webSocket ` set (sessions st)"
    then obtain s where "s \<in> set (sessions st)" and "webSocket s = next_ws st + 1"
      by auto
    with old [of s] show False by simp
  qed
  moreover have "webSocket s < next_ws st + 2" if "s \<in> set (sessions st)" for s
    using old [OF that] by simp
  ultimately show ?thesis
    using assms unfolding fetch_admits [OF assms valid]
    by (simp add: room_ok_def)
qed

lemma room_ok_handleMessage:
  assumes "room_ok st"
  shows "room_ok (handleMessage JSON_parse session data uuid now st)"
proof (cases "data_accepted JSON_parse data")
  case True
  show ?thesis
    unfolding handleMessage_accepted [OF True]
    by (rule room_ok_same_sessions [OF assms]) simp_all
next
  case False
  from handleMessage_discarded [OF False, of session uuid now st] assms show ?thesis
    by (auto intro: room_ok_same_sessions)
qed

lemma room_ok_handleClose:
  assumes "room_ok st"
  shows "room_ok (handleClose session uuid now st)"
  using assms by (simp add: handleClose_eq room_ok_def Set_delete_def distinct_map_filter)

lemma room_ok_alarm:
  "room_ok st \<Longrightarrow> room_ok (snd (alarm now put_fulfilled now' setAlarm_fulfilled st))"
  by (simp add: alarm_def Let_def storage_put_def storage_setAlarm_def emit_def room_ok_def)

lemma room_ok_dispatch: "room_ok st \<Longrightarrow> room_ok (dispatch JSON_parse e st)"
  by (cases e) (simp_all add: room_ok_fetch room_ok_handleMessage room_ok_handleClose room_ok_alarm)

text \<open>Every room that the events build from a new one has the live sessions on different sockets.\<close>

lemma room_ok_run: "room_ok st \<Longrightarrow> room_ok (run JSON_parse events st)"
  by (induction events arbitrary: st) (simp_all add: run_Nil run_Cons room_ok_dispatch)

lemma room_ok_reachable: "room_ok (run JSON_parse events (new_ChatRoom stored pending))"
  by (rule room_ok_run [OF room_ok_new])

end
